theory Spec2Isabelle
  imports Complex_Main
begin

section \<open>Safety and decision core of the panic-support service\<close>

text \<open>
  The theory embeds the safety layer of the service: the stability gate and the activation
  gate built on it, the clinical assessment and the decision engine, the risk scoring
  engine, the crisis detector, the escalation manager with the emergency resources, the
  response validator with its regular expressions, and the pipeline that composes them.

  Conventions of the embedding.
  \<^item> Python floats are read as exact real numbers. Every comparison that decides a result
    below is against a constant (60, 0.85, 0.5, ...) and the concrete inputs used keep a wide
    margin from it.
  \<^item> UUIDs and free text are strings. Enumerations are datatypes, with the integer value of
    an \<open>IntEnum\<close> given by a function; members of different enumerations that share a name
    are told apart by the name of their type, as in the source.
  \<^item> The clock is an argument: a call receives the reading \<open>now\<close> (seconds) that
    \<open>datetime.utcnow()\<close> would return, and one reading serves the whole call.
  \<^item> Timestamps, freshly drawn identifiers and the human-readable reason texts, which only
    feed the log, are not part of the records below.
\<close>

subsection \<open>Severity of a panic episode\<close>

datatype PanicSeverity = NONE | MILD | MODERATE | SEVERE | CRITICAL

fun severity_value :: "PanicSeverity \<Rightarrow> int" where
  "severity_value NONE = 0"
| "severity_value MILD = 1"
| "severity_value MODERATE = 2"
| "severity_value SEVERE = 3"
| "severity_value PanicSeverity.CRITICAL = 4"

subsection \<open>Stability gate\<close>

datatype PanicStabilityState = PANIC_CRITICAL | PANIC_ACTIVE | PANIC_STABILIZING | PANIC_RECOVERED

fun stability_value :: "PanicStabilityState \<Rightarrow> int" where
  "stability_value PANIC_CRITICAL = 1"
| "stability_value PANIC_ACTIVE = 2"
| "stability_value PANIC_STABILIZING = 3"
| "stability_value PANIC_RECOVERED = 4"

record StabilityContext =
  session_id :: string
  user_id :: string
  started_at :: real
  current_severity :: PanicSeverity
  current_intensity :: real
  severity_history :: "PanicSeverity list"
  intensity_history :: "real list"
  breathing_cycles_completed :: int
  grounding_steps_completed :: int
  has_crisis_signals :: bool
  has_self_harm_signals :: bool

definition elapsed_seconds :: "real \<Rightarrow> StabilityContext \<Rightarrow> real" where
  "elapsed_seconds now c = now - started_at c"

definition has_completed_exercise :: "StabilityContext \<Rightarrow> bool" where
  "has_completed_exercise c \<longleftrightarrow>
     breathing_cycles_completed c \<ge> 3 \<or> grounding_steps_completed c \<ge> 3"

text \<open>\<open>xs[-3:]\<close>: the last three elements, or all of them when there are fewer.\<close>

definition last3 :: "'a list \<Rightarrow> 'a list" where
  "last3 xs = drop (length xs - 3) xs"

definition severity_trend :: "StabilityContext \<Rightarrow> int" where
  "severity_trend c =
     (if length (severity_history c) < 2 then 0
      else let recent = last3 (severity_history c) in
        if length recent < 2 then 0
        else let values = map severity_value recent in last values - hd values)"

definition intensity_trend :: "StabilityContext \<Rightarrow> real" where
  "intensity_trend c =
     (if length (intensity_history c) < 2 then 0
      else let recent = last3 (intensity_history c) in
        if length recent < 2 then 0
        else last recent - hd recent)"

record StabilityEvaluation =
  state :: PanicStabilityState
  eval_elapsed_seconds :: real
  eval_severity_trend :: int
  eval_intensity_trend :: real
  exercise_completed :: bool

definition MIN_TIME_FOR_STABILIZING_SECONDS :: real where
  "MIN_TIME_FOR_STABILIZING_SECONDS = 60"

definition MIN_TIME_FOR_RECOVERED_SECONDS :: real where
  "MIN_TIME_FOR_RECOVERED_SECONDS = 180"

definition INTENSITY_IMPROVEMENT_THRESHOLD :: real where
  "INTENSITY_IMPROVEMENT_THRESHOLD = 0.2"

definition mk_evaluation :: "PanicStabilityState \<Rightarrow> real \<Rightarrow> StabilityContext \<Rightarrow> StabilityEvaluation" where
  "mk_evaluation st now c =
     \<lparr>state = st,
      eval_elapsed_seconds = elapsed_seconds now c,
      eval_severity_trend = severity_trend c,
      eval_intensity_trend = intensity_trend c,
      exercise_completed = has_completed_exercise c\<rparr>"

text \<open>\<open>StabilityGate.evaluate\<close>, branch by branch in the order of the source.\<close>

definition evaluate :: "real \<Rightarrow> StabilityContext \<Rightarrow> StabilityEvaluation" where
  "evaluate now c =
     (if has_crisis_signals c \<or> has_self_harm_signals c then mk_evaluation PANIC_CRITICAL now c
      else if severity_value (current_severity c) \<ge> severity_value PanicSeverity.CRITICAL
        then mk_evaluation PANIC_CRITICAL now c
      else if elapsed_seconds now c < MIN_TIME_FOR_STABILIZING_SECONDS
        then mk_evaluation PANIC_ACTIVE now c
      else if severity_value (current_severity c) \<ge> severity_value SEVERE \<and> severity_trend c \<ge> 0
        then mk_evaluation PANIC_ACTIVE now c
      else if has_completed_exercise c then
        (let intensity_improved =
               (length (intensity_history c) \<ge> 2 \<and>
                hd (intensity_history c) - current_intensity c \<ge> INTENSITY_IMPROVEMENT_THRESHOLD)
         in if elapsed_seconds now c \<ge> MIN_TIME_FOR_RECOVERED_SECONDS \<and>
               severity_value (current_severity c) \<le> severity_value MILD \<and>
               intensity_improved \<and>
               severity_trend c < 0
            then mk_evaluation PANIC_RECOVERED now c
            else mk_evaluation PANIC_STABILIZING now c)
      else mk_evaluation PANIC_ACTIVE now c)"

subsection \<open>Activation gate\<close>

datatype ActivationDenialReason =
    STABILITY_TOO_LOW
  | CRISIS_SIGNALS
  | NO_EXERCISE_COMPLETED
  | TIME_THRESHOLD_NOT_MET
  | GEMINI_DISABLED
  | ERROR_THRESHOLD_EXCEEDED

record ActivationDecision =
  allowed :: bool
  denial_reason :: "ActivationDenialReason option"
  stability_state :: "PanicStabilityState option"

record GeminiActivationGate =
  session_error_counts :: "string \<rightharpoonup> int"
  gemini_disabled :: bool

definition MIN_STABILITY_STATE :: PanicStabilityState where
  "MIN_STABILITY_STATE = PANIC_STABILIZING"

definition MIN_TIME_SECONDS :: real where
  "MIN_TIME_SECONDS = 60"

definition ERROR_THRESHOLD :: int where
  "ERROR_THRESHOLD = 3"

text \<open>\<open>dict.get(key, 0)\<close> on the error counters.\<close>

definition error_count :: "GeminiActivationGate \<Rightarrow> string \<Rightarrow> int" where
  "error_count g k = (case session_error_counts g k of None \<Rightarrow> 0 | Some n \<Rightarrow> n)"

definition deny :: "ActivationDenialReason \<Rightarrow> PanicStabilityState option \<Rightarrow> ActivationDecision" where
  "deny r st = \<lparr>allowed = False, denial_reason = Some r, stability_state = st\<rparr>"

text \<open>
  \<open>GeminiActivationGate.is_allowed\<close>. The optional argument is the precomputed stability
  evaluation; without it the gate asks the stability gate.
\<close>

definition is_allowed ::
  "GeminiActivationGate \<Rightarrow> real \<Rightarrow> StabilityContext \<Rightarrow> StabilityEvaluation option \<Rightarrow> ActivationDecision" where
  "is_allowed g now c stability_eval =
     (if gemini_disabled g then deny GEMINI_DISABLED None
      else if error_count g (session_id c) \<ge> ERROR_THRESHOLD then deny ERROR_THRESHOLD_EXCEEDED None
      else if has_crisis_signals c \<or> has_self_harm_signals c then deny CRISIS_SIGNALS None
      else if elapsed_seconds now c < MIN_TIME_SECONDS then deny TIME_THRESHOLD_NOT_MET None
      else if \<not> has_completed_exercise c then deny NO_EXERCISE_COMPLETED None
      else
        (let ev = (case stability_eval of None \<Rightarrow> evaluate now c | Some e \<Rightarrow> e) in
         if stability_value (state ev) < stability_value MIN_STABILITY_STATE
         then deny STABILITY_TOO_LOW (Some (state ev))
         else \<lparr>allowed = True, denial_reason = None, stability_state = Some (state ev)\<rparr>))"

definition record_error :: "GeminiActivationGate \<Rightarrow> string \<Rightarrow> GeminiActivationGate" where
  "record_error g sid =
     g\<lparr>session_error_counts := (session_error_counts g)(sid \<mapsto> error_count g sid + 1)\<rparr>"

definition clear_session :: "GeminiActivationGate \<Rightarrow> string \<Rightarrow> GeminiActivationGate" where
  "clear_session g sid = g\<lparr>session_error_counts := (session_error_counts g)(sid := None)\<rparr>"

definition disable :: "GeminiActivationGate \<Rightarrow> GeminiActivationGate" where
  "disable g = g\<lparr>gemini_disabled := True\<rparr>"

definition enable :: "GeminiActivationGate \<Rightarrow> GeminiActivationGate" where
  "enable g = g\<lparr>gemini_disabled := False\<rparr>"

text \<open>A new gate: no errors recorded, the kill-switch as configured.\<close>

definition new_gate :: "bool \<Rightarrow> GeminiActivationGate" where
  "new_gate disabled = \<lparr>session_error_counts = Map.empty, gemini_disabled = disabled\<rparr>"

text \<open>
  The specification's reading of the gate: six checks in a fixed order, each with the
  reason it reports; the first check that fails gives the denial reason.
\<close>

definition the_stability_state ::
  "real \<Rightarrow> StabilityContext \<Rightarrow> StabilityEvaluation option \<Rightarrow> PanicStabilityState" where
  "the_stability_state now c stability_eval =
     (case stability_eval of None \<Rightarrow> state (evaluate now c) | Some e \<Rightarrow> state e)"

definition gate_checks ::
  "GeminiActivationGate \<Rightarrow> real \<Rightarrow> StabilityContext \<Rightarrow> StabilityEvaluation option
     \<Rightarrow> (bool \<times> ActivationDenialReason) list" where
  "gate_checks g now c stability_eval =
     [(\<not> gemini_disabled g, GEMINI_DISABLED),
      (error_count g (session_id c) < 3, ERROR_THRESHOLD_EXCEEDED),
      (\<not> has_crisis_signals c \<and> \<not> has_self_harm_signals c, CRISIS_SIGNALS),
      (elapsed_seconds now c \<ge> 60, TIME_THRESHOLD_NOT_MET),
      (has_completed_exercise c, NO_EXERCISE_COMPLETED),
      (stability_value (the_stability_state now c stability_eval) \<ge> stability_value PANIC_STABILIZING,
       STABILITY_TOO_LOW)]"

fun first_failure :: "(bool \<times> 'r) list \<Rightarrow> 'r option" where
  "first_failure [] = None"
| "first_failure ((ok, r) # cs) = (if ok then first_failure cs else Some r)"

text \<open>The context of the unit tests that is meant to pass every check, started at time 0.\<close>

definition allowed_context :: StabilityContext where
  "allowed_context =
     \<lparr>session_id = ''s1'', user_id = ''u1'', started_at = 0,
      current_severity = MILD, current_intensity = 0.3,
      severity_history = [MODERATE, MILD], intensity_history = [0.6, 0.3],
      breathing_cycles_completed = 4, grounding_steps_completed = 0,
      has_crisis_signals = False, has_self_harm_signals = False\<rparr>"

subsection \<open>Clinical assessment\<close>

datatype UrgencyLevel = ROUTINE | ELEVATED | HIGH | EMERGENCY

fun from_severity :: "PanicSeverity \<Rightarrow> UrgencyLevel" where
  "from_severity NONE = ROUTINE"
| "from_severity MILD = UrgencyLevel.ELEVATED"
| "from_severity MODERATE = UrgencyLevel.HIGH"
| "from_severity SEVERE = EMERGENCY"
| "from_severity PanicSeverity.CRITICAL = EMERGENCY"

fun PanicSeverity_name :: "PanicSeverity \<Rightarrow> string" where
  "PanicSeverity_name NONE = ''NONE''"
| "PanicSeverity_name MILD = ''MILD''"
| "PanicSeverity_name MODERATE = ''MODERATE''"
| "PanicSeverity_name SEVERE = ''SEVERE''"
| "PanicSeverity_name PanicSeverity.CRITICAL = ''CRITICAL''"

datatype EmotionCategory =
  FEAR | DREAD | LOSS_OF_CONTROL | DISSOCIATION | HELPLESSNESS | HYPERVIGILANCE | SHAME | CONFUSION

fun EmotionCategory_value :: "EmotionCategory \<Rightarrow> string" where
  "EmotionCategory_value FEAR = ''fear''"
| "EmotionCategory_value DREAD = ''dread''"
| "EmotionCategory_value LOSS_OF_CONTROL = ''loss_of_control''"
| "EmotionCategory_value DISSOCIATION = ''dissociation''"
| "EmotionCategory_value HELPLESSNESS = ''helplessness''"
| "EmotionCategory_value HYPERVIGILANCE = ''hypervigilance''"
| "EmotionCategory_value SHAME = ''shame''"
| "EmotionCategory_value CONFUSION = ''confusion''"

datatype DistressType = PHYSIOLOGICAL | COGNITIVE | BEHAVIORAL | EMOTIONAL

record EmotionScore =
  category :: EmotionCategory
  confidence :: real
  intensity :: real
  is_primary :: bool

record EmotionProfile =
  emotions :: "EmotionScore list"
  dominant_emotion :: "EmotionCategory option"
  emotional_volatility :: real

text \<open>
  \<open>max(emotions, key=confidence)\<close>: the index of the first element of greatest confidence.
  The list is not empty where it is used.
\<close>

fun argmax_confidence :: "EmotionScore list \<Rightarrow> nat" where
  "argmax_confidence [] = 0"
| "argmax_confidence [e] = 0"
| "argmax_confidence (e # es) =
     (let j = argmax_confidence es in
      if EmotionScore.confidence (es ! j) > EmotionScore.confidence e then Suc j else 0)"

definition EmotionProfile_post_init :: "EmotionProfile \<Rightarrow> EmotionProfile" where
  "EmotionProfile_post_init p =
     (if dominant_emotion p = None \<and> emotions p \<noteq> [] then
        (let i = argmax_confidence (emotions p); primary = emotions p ! i in
         p\<lparr>dominant_emotion := Some (EmotionScore.category primary),
           emotions := (emotions p)[i := primary\<lparr>is_primary := True\<rparr>]\<rparr>)
      else p)"

fun get_emotion_score_list :: "EmotionScore list \<Rightarrow> EmotionCategory \<Rightarrow> real" where
  "get_emotion_score_list [] cat = 0"
| "get_emotion_score_list (e # es) cat =
     (if EmotionScore.category e = cat then EmotionScore.confidence e
      else get_emotion_score_list es cat)"

definition get_emotion_score :: "EmotionProfile \<Rightarrow> EmotionCategory \<Rightarrow> real" where
  "get_emotion_score p cat = get_emotion_score_list (emotions p) cat"

record DistressIndicator =
  indicator_type :: DistressType
  description :: string
  severity :: real
  source_text :: string
  clinical_notes :: string

record DistressIndicators =
  physiological :: "DistressIndicator list"
  cognitive :: "DistressIndicator list"
  behavioral :: "DistressIndicator list"
  emotional :: "DistressIndicator list"
  overall_distress_level :: real

definition all_indicators :: "DistressIndicators \<Rightarrow> DistressIndicator list" where
  "all_indicators d = physiological d @ cognitive d @ behavioral d @ emotional d"

definition indicator_count :: "DistressIndicators \<Rightarrow> nat" where
  "indicator_count d = length (all_indicators d)"

record SeverityClassification =
  predicted_severity :: PanicSeverity
  probabilities :: "(PanicSeverity \<times> real) list"
  confidence :: real
  uncertainty_flag :: bool
  model_version :: string

text \<open>The dictionary of class probabilities is an association list; only its values are read.\<close>

definition SeverityClassification_post_init :: "SeverityClassification \<Rightarrow> SeverityClassification" where
  "SeverityClassification_post_init s =
     (if SeverityClassification.confidence s < 0.6 then s\<lparr>uncertainty_flag := True\<rparr>
      else if probabilities s \<noteq> [] then
        (let sorted_probs = rev (sort (map snd (probabilities s))) in
         if length sorted_probs \<ge> 2 \<and> sorted_probs ! 0 - sorted_probs ! 1 < 0.15
         then s\<lparr>uncertainty_flag := True\<rparr> else s)
      else s)"

record TriggerAnalysis =
  immediate_triggers :: "string list"
  historical_triggers :: "string list"
  temporal_patterns :: "string list"
  context_factors :: "string list"

record ClinicalAssessment =
  assessment_id :: string
  user_id :: "string option"
  session_id :: "string option"
  message_id :: "string option"
  severity :: SeverityClassification
  emotion_profile :: EmotionProfile
  distress_indicators :: DistressIndicators
  trigger_analysis :: TriggerAnalysis
  urgency :: UrgencyLevel
  requires_crisis_protocol :: bool
  requires_human_review :: bool
  confidence_score :: real
  uncertainty_flags :: "string list"
  raw_text_hash :: string
  model_versions :: "(string \<times> string) list"
  embeddings :: "real list option"

text \<open>
  \<open>ClinicalAssessment.__post_init__\<close>, which every constructed assessment has been through:
  the argument holds the fields as passed to the constructor.
\<close>

definition ClinicalAssessment_post_init :: "ClinicalAssessment \<Rightarrow> ClinicalAssessment" where
  "ClinicalAssessment_post_init a =
     (let a1 = (if severity_value (predicted_severity (ClinicalAssessment.severity a))
                     \<ge> severity_value PanicSeverity.CRITICAL
                then a\<lparr>requires_crisis_protocol := True\<rparr> else a);
          a2 = a1\<lparr>urgency := from_severity (predicted_severity (ClinicalAssessment.severity a1))\<rparr>
      in if uncertainty_flag (ClinicalAssessment.severity a2) then
           (let a3 = a2\<lparr>requires_human_review := True\<rparr> in
            if ''severity_uncertainty'' \<notin> set (uncertainty_flags a3)
            then a3\<lparr>uncertainty_flags := uncertainty_flags a3 @ [''severity_uncertainty'']\<rparr>
            else a3)
         else a2)"

text \<open>The defaults of the dataclasses, as the constructors fill them in.\<close>

definition default_SeverityClassification :: "PanicSeverity \<Rightarrow> real \<Rightarrow> SeverityClassification" where
  "default_SeverityClassification sev conf =
     SeverityClassification_post_init
       \<lparr>predicted_severity = sev, probabilities = [], confidence = conf,
        uncertainty_flag = False, model_version = ''1.0.0''\<rparr>"

definition default_EmotionProfile :: EmotionProfile where
  "default_EmotionProfile =
     EmotionProfile_post_init \<lparr>emotions = [], dominant_emotion = None, emotional_volatility = 0\<rparr>"

definition default_DistressIndicators :: DistressIndicators where
  "default_DistressIndicators =
     \<lparr>physiological = [], cognitive = [], behavioral = [], emotional = [],
      overall_distress_level = 0\<rparr>"

definition default_TriggerAnalysis :: TriggerAnalysis where
  "default_TriggerAnalysis =
     \<lparr>immediate_triggers = [], historical_triggers = [], temporal_patterns = [],
      context_factors = []\<rparr>"

text \<open>
  \<open>ClinicalAssessment(user_id=..., severity=...)\<close> with every other field at its default, as
  the unit tests build their assessments.
\<close>

definition assessment_fields :: "string \<Rightarrow> SeverityClassification \<Rightarrow> ClinicalAssessment" where
  "assessment_fields uid sev =
     \<lparr>assessment_id = ''a1'', user_id = Some uid, session_id = None, message_id = None,
      severity = sev, emotion_profile = default_EmotionProfile,
      distress_indicators = default_DistressIndicators,
      trigger_analysis = default_TriggerAnalysis,
      urgency = ROUTINE, requires_crisis_protocol = False, requires_human_review = False,
      confidence_score = 0, uncertainty_flags = [], raw_text_hash = [],
      model_versions = [], embeddings = None\<rparr>"

definition assessment_with :: "string \<Rightarrow> SeverityClassification \<Rightarrow> ClinicalAssessment" where
  "assessment_with uid sev = ClinicalAssessment_post_init (assessment_fields uid sev)"

subsection \<open>Decision engine\<close>

datatype PanicTrigger =
    UNKNOWN | SOCIAL | HEALTH_ANXIETY | WORK_STRESS | RELATIONSHIP | FINANCIAL | TRAUMA_REMINDER
  | PHYSICAL_SYMPTOMS | CAFFEINE | SLEEP_DEPRIVATION | CROWDED_SPACE | OTHER

text \<open>\<open>PanicTrigger(value)\<close>: the member of that value, \<open>None\<close> where Python raises \<open>ValueError\<close>.\<close>

definition PanicTrigger_of :: "string \<Rightarrow> PanicTrigger option" where
  "PanicTrigger_of s =
     (if s = ''unknown'' then Some UNKNOWN
      else if s = ''social'' then Some SOCIAL
      else if s = ''health_anxiety'' then Some HEALTH_ANXIETY
      else if s = ''work_stress'' then Some WORK_STRESS
      else if s = ''relationship'' then Some RELATIONSHIP
      else if s = ''financial'' then Some FINANCIAL
      else if s = ''trauma_reminder'' then Some TRAUMA_REMINDER
      else if s = ''physical_symptoms'' then Some PHYSICAL_SYMPTOMS
      else if s = ''caffeine'' then Some CAFFEINE
      else if s = ''sleep_deprivation'' then Some SLEEP_DEPRIVATION
      else if s = ''crowded_space'' then Some CROWDED_SPACE
      else if s = ''other'' then Some OTHER
      else None)"

datatype PanicIntervention =
    GROUNDING_TECHNIQUE | BREATHING_EXERCISE | COGNITIVE_REFRAME | PROGRESSIVE_RELAXATION
  | VALIDATION | DISTRACTION | CRISIS_RESOURCES | PROFESSIONAL_REFERRAL

definition PanicIntervention_of :: "string \<Rightarrow> PanicIntervention option" where
  "PanicIntervention_of s =
     (if s = ''grounding_technique'' then Some GROUNDING_TECHNIQUE
      else if s = ''breathing_exercise'' then Some BREATHING_EXERCISE
      else if s = ''cognitive_reframe'' then Some COGNITIVE_REFRAME
      else if s = ''progressive_relaxation'' then Some PROGRESSIVE_RELAXATION
      else if s = ''validation'' then Some VALIDATION
      else if s = ''distraction'' then Some DISTRACTION
      else if s = ''crisis_resources'' then Some CRISIS_RESOURCES
      else if s = ''professional_referral'' then Some PROFESSIONAL_REFERRAL
      else None)"

datatype ResponseStrategy = CHECK_IN | ACKNOWLEDGE | GROUND | INTERVENE | CRISIS

datatype ResponseTone = WARM | CALM | DIRECT | URGENT

text \<open>The values a prompt modifier can hold.\<close>

datatype modifier_value = MStr string | MReal real | MInt int | MBool bool | MStrList "string list"

record DecisionContext =
  user_id :: string
  clinical_assessment :: ClinicalAssessment
  session_id :: "string option"
  session_message_count :: int
  previous_panic_count :: int
  last_intervention_used :: "string option"
  user_preferences :: "(string \<times> string) list"

record Decision =
  strategy :: ResponseStrategy
  tone :: ResponseTone
  primary_intervention :: "PanicIntervention option"
  secondary_interventions :: "PanicIntervention list"
  response_constraints :: "string list"
  prompt_modifiers :: "(string \<times> modifier_value) list"
  escalate_to_crisis :: bool
  require_consent_check :: bool

fun SEVERITY_INTERVENTIONS :: "PanicSeverity \<Rightarrow> PanicIntervention list" where
  "SEVERITY_INTERVENTIONS NONE = []"
| "SEVERITY_INTERVENTIONS MILD = [VALIDATION, BREATHING_EXERCISE]"
| "SEVERITY_INTERVENTIONS MODERATE = [BREATHING_EXERCISE, GROUNDING_TECHNIQUE, VALIDATION]"
| "SEVERITY_INTERVENTIONS SEVERE =
     [GROUNDING_TECHNIQUE, BREATHING_EXERCISE, PROGRESSIVE_RELAXATION, PROFESSIONAL_REFERRAL]"
| "SEVERITY_INTERVENTIONS PanicSeverity.CRITICAL =
     [CRISIS_RESOURCES, GROUNDING_TECHNIQUE, PROFESSIONAL_REFERRAL]"

fun SEVERITY_STRATEGY :: "PanicSeverity \<Rightarrow> ResponseStrategy" where
  "SEVERITY_STRATEGY NONE = CHECK_IN"
| "SEVERITY_STRATEGY MILD = ACKNOWLEDGE"
| "SEVERITY_STRATEGY MODERATE = GROUND"
| "SEVERITY_STRATEGY SEVERE = INTERVENE"
| "SEVERITY_STRATEGY PanicSeverity.CRITICAL = CRISIS"

fun SEVERITY_TONE :: "PanicSeverity \<Rightarrow> ResponseTone" where
  "SEVERITY_TONE NONE = WARM"
| "SEVERITY_TONE MILD = WARM"
| "SEVERITY_TONE MODERATE = CALM"
| "SEVERITY_TONE SEVERE = CALM"
| "SEVERITY_TONE PanicSeverity.CRITICAL = DIRECT"

definition UNIVERSAL_CONSTRAINTS :: "string list" where
  "UNIVERSAL_CONSTRAINTS =
     [''NEVER provide medical diagnosis'',
      ''NEVER prescribe medication or dosages'',
      ''NEVER claim to be a replacement for professional help'',
      ''NEVER minimize user's experience'',
      ''ALWAYS validate user's feelings'',
      ''ALWAYS use trauma-informed language'']"

definition adjust_tone_for_emotions :: "ResponseTone \<Rightarrow> ClinicalAssessment \<Rightarrow> ResponseTone" where
  "adjust_tone_for_emotions base_tone assessment =
     (let p = emotion_profile assessment in
      if dominant_emotion p = None then base_tone
      else if dominant_emotion p = Some DISSOCIATION then DIRECT
      else if dominant_emotion p = Some LOSS_OF_CONTROL then CALM
      else if emotional_volatility p > 0.7 then CALM
      else base_tone)"

definition build_clinical_modifiers :: "DecisionContext \<Rightarrow> (string \<times> modifier_value) list" where
  "build_clinical_modifiers context =
     (let assessment = clinical_assessment context;
          m0 = [(''severity_level'',
                   MStr (PanicSeverity_name (predicted_severity (ClinicalAssessment.severity assessment)))),
                (''confidence_score'', MReal (confidence_score assessment)),
                (''session_message_count'', MInt (session_message_count context)),
                (''is_recurring'', MBool (previous_panic_count context > 0))];
          m1 = (case dominant_emotion (emotion_profile assessment) of
                  None \<Rightarrow> m0
                | Some e \<Rightarrow> m0 @ [(''dominant_emotion'', MStr (EmotionCategory_value e))]);
          m2 = (if immediate_triggers (trigger_analysis assessment) \<noteq> []
                then m1 @ [(''triggers'', MStrList (immediate_triggers (trigger_analysis assessment)))]
                else m1);
          m3 = m2 @ [(''distress_level'',
                        MReal (overall_distress_level (distress_indicators assessment)))]
      in if uncertainty_flags assessment \<noteq> [] then m3 @ [(''has_uncertainty'', MBool True)] else m3)"

definition crisis_decision :: "DecisionContext \<Rightarrow> Decision" where
  "crisis_decision context =
     \<lparr>strategy = CRISIS,
      tone = DIRECT,
      primary_intervention = Some CRISIS_RESOURCES,
      secondary_interventions = [GROUNDING_TECHNIQUE, PROFESSIONAL_REFERRAL],
      response_constraints =
        UNIVERSAL_CONSTRAINTS @
        [''MUST provide crisis hotline number'',
         ''MUST recommend immediate professional help'',
         ''Response MUST be clear and actionable''],
      prompt_modifiers =
        [(''include_crisis_hotline'', MBool True), (''include_emergency_grounding'', MBool True)],
      escalate_to_crisis = True,
      require_consent_check = False\<rparr>"

text \<open>\<open>xs.remove(x); xs.insert(0, x)\<close> for an \<open>x\<close> that is in \<open>xs\<close>.\<close>

definition move_to_front :: "'a \<Rightarrow> 'a list \<Rightarrow> 'a list" where
  "move_to_front x xs = (if x \<in> set xs then x # remove1 x xs else xs)"

definition select_interventions ::
  "PanicSeverity \<Rightarrow> string option \<Rightarrow> PanicTrigger list \<Rightarrow> PanicIntervention list" where
  "select_interventions sev last_intervention triggers =
     (let base = SEVERITY_INTERVENTIONS sev;
          base1 = (case last_intervention of
                     None \<Rightarrow> base
                   | Some s \<Rightarrow>
                       if s = [] then base
                       else (case PanicIntervention_of s of
                               None \<Rightarrow> base
                             | Some l \<Rightarrow> move_to_front l base))
      in if HEALTH_ANXIETY \<in> set triggers then move_to_front GROUNDING_TECHNIQUE base1 else base1)"

definition build_constraints :: "PanicSeverity \<Rightarrow> string list" where
  "build_constraints sev =
     (let c0 = UNIVERSAL_CONSTRAINTS;
          c1 = (if severity_value sev \<ge> severity_value MODERATE
                then c0 @ [''Keep response focused and concise'',
                           ''Avoid lengthy explanations during crisis'']
                else c0)
      in if severity_value sev \<ge> severity_value SEVERE
         then c1 @ [''Include option for professional help'', ''Use simple, clear language'']
         else c1)"

text \<open>\<open>DecisionEngine.decide\<close>.\<close>

definition decide :: "DecisionContext \<Rightarrow> Decision" where
  "decide context =
     (let assessment = clinical_assessment context;
          sev = predicted_severity (ClinicalAssessment.severity assessment)
      in if requires_crisis_protocol assessment then crisis_decision context
         else
           (let strategy0 = SEVERITY_STRATEGY sev;
                tone0 = adjust_tone_for_emotions (SEVERITY_TONE sev) assessment;
                triggers = UNKNOWN #
                  List.map_filter PanicTrigger_of (immediate_triggers (trigger_analysis assessment));
                interventions = select_interventions sev (last_intervention_used context) triggers
            in \<lparr>strategy = strategy0,
                tone = tone0,
                primary_intervention = (case interventions of [] \<Rightarrow> None | i # _ \<Rightarrow> Some i),
                secondary_interventions = (if length interventions > 1 then tl interventions else []),
                response_constraints = build_constraints sev,
                prompt_modifiers = build_clinical_modifiers context,
                escalate_to_crisis = (severity_value sev \<ge> severity_value SEVERE),
                require_consent_check = requires_human_review assessment\<rparr>))"

text \<open>A decision context around an assessment, the other fields at their defaults.\<close>

definition context_for :: "ClinicalAssessment \<Rightarrow> DecisionContext" where
  "context_for a =
     \<lparr>user_id = ''u1'', clinical_assessment = a, session_id = None, session_message_count = 0,
      previous_panic_count = 0, last_intervention_used = None, user_preferences = []\<rparr>"

subsection \<open>Risk models\<close>

datatype RiskLevel = LOW | ELEVATED | HIGH | CRITICAL

fun risk_value :: "RiskLevel \<Rightarrow> int" where
  "risk_value LOW = 1"
| "risk_value RiskLevel.ELEVATED = 2"
| "risk_value RiskLevel.HIGH = 3"
| "risk_value RiskLevel.CRITICAL = 4"

datatype EscalationAction = CONTINUE_SUPPORT | ENCOURAGE_HELP | PRESENT_RESOURCES | LOG_FOR_REVIEW

datatype RiskSignalType = LINGUISTIC | EMOTIONAL | BEHAVIORAL | HISTORICAL | CONTEXTUAL

record RiskSignal =
  signal_type :: RiskSignalType
  signal_name :: string
  description :: string
  weight :: real
  confidence :: real
  source :: string

definition weighted_contribution :: "RiskSignal \<Rightarrow> real" where
  "weighted_contribution s = RiskSignal.weight s * RiskSignal.confidence s"

record RiskAssessment =
  assessment_id :: string
  user_id :: "string option"
  session_id :: "string option"
  risk_level :: RiskLevel
  risk_score :: real
  confidence :: real
  signals :: "RiskSignal list"
  signal_count :: nat
  has_uncertainty :: bool
  uncertainty_reasons :: "string list"
  recommended_actions :: "EscalationAction list"
  requires_human_review :: bool
  thresholds_applied :: "(string \<times> real) list"

definition RiskAssessment_post_init :: "RiskAssessment \<Rightarrow> RiskAssessment" where
  "RiskAssessment_post_init r =
     (let r1 = r\<lparr>signal_count := length (RiskAssessment.signals r)\<rparr>;
          r2 = (if risk_value (risk_level r1) \<ge> risk_value RiskLevel.CRITICAL
                then r1\<lparr>RiskAssessment.requires_human_review := True\<rparr> else r1)
      in if RiskAssessment.confidence r2 < 0.6 then
           (let r3 = r2\<lparr>has_uncertainty := True\<rparr> in
            if ''low_confidence'' \<notin> set (uncertainty_reasons r3)
            then r3\<lparr>uncertainty_reasons := uncertainty_reasons r3 @ [''low_confidence'']\<rparr>
            else r3)
         else r2)"

text \<open>\<open>RiskAssessment(user_id=..., risk_level=..., risk_score=...)\<close>, the rest at its default.\<close>

definition risk_assessment_with :: "string \<Rightarrow> RiskLevel \<Rightarrow> real \<Rightarrow> RiskAssessment" where
  "risk_assessment_with uid lvl score =
     RiskAssessment_post_init
       \<lparr>assessment_id = ''r1'', user_id = Some uid, session_id = None,
        risk_level = lvl, risk_score = score, confidence = 0, signals = [], signal_count = 0,
        has_uncertainty = False, uncertainty_reasons = [], recommended_actions = [],
        requires_human_review = False, thresholds_applied = []\<rparr>"

subsection \<open>Risk scoring engine\<close>

record RiskThresholds =
  critical_threshold :: real
  high_threshold :: real
  elevated_threshold :: real
  min_signals_for_critical :: nat
  min_signals_for_high :: nat
  low_confidence_threshold :: real
  require_multi_signal_types :: bool

definition default_thresholds :: RiskThresholds where
  "default_thresholds =
     \<lparr>critical_threshold = 0.85, high_threshold = 0.65, elevated_threshold = 0.40,
      min_signals_for_critical = 3, min_signals_for_high = 2,
      low_confidence_threshold = 0.5, require_multi_signal_types = True\<rparr>"

definition SIGNAL_WEIGHTS :: "(string \<times> real) list" where
  "SIGNAL_WEIGHTS =
     [(''severity_critical'', 0.35),
      (''severity_severe'', 0.25),
      (''severity_moderate'', 0.15),
      (''emotion_dread'', 0.20),
      (''emotion_dissociation'', 0.25),
      (''emotion_helplessness'', 0.15),
      (''emotion_loss_of_control'', 0.20),
      (''high_distress'', 0.20),
      (''crisis_protocol_active'', 0.40),
      (''high_volatility'', 0.15),
      (''uncertainty'', - 0.05)]"

text \<open>
  \<open>SIGNAL_WEIGHTS.get(name, default)\<close>. The source also indexes the table directly, always
  with a key that is present, where the default plays no part.
\<close>

definition SIGNAL_WEIGHTS_get :: "string \<Rightarrow> real \<Rightarrow> real" where
  "SIGNAL_WEIGHTS_get name dflt = (case map_of SIGNAL_WEIGHTS name of None \<Rightarrow> dflt | Some w \<Rightarrow> w)"

definition extract_severity_signals :: "ClinicalAssessment \<Rightarrow> RiskSignal list" where
  "extract_severity_signals clinical =
     (let sev = predicted_severity (ClinicalAssessment.severity clinical);
          conf = SeverityClassification.confidence (ClinicalAssessment.severity clinical)
      in if severity_value sev \<ge> severity_value PanicSeverity.CRITICAL then
           [\<lparr>signal_type = RiskSignalType.BEHAVIORAL, signal_name = ''severity_critical'',
             description = ''Critical panic severity detected'',
             weight = SIGNAL_WEIGHTS_get ''severity_critical'' 0, confidence = conf,
             source = ''panic_classifier''\<rparr>]
         else if severity_value sev \<ge> severity_value SEVERE then
           [\<lparr>signal_type = RiskSignalType.BEHAVIORAL, signal_name = ''severity_severe'',
             description = ''Severe panic severity detected'',
             weight = SIGNAL_WEIGHTS_get ''severity_severe'' 0, confidence = conf,
             source = ''panic_classifier''\<rparr>]
         else if severity_value sev \<ge> severity_value MODERATE then
           [\<lparr>signal_type = RiskSignalType.BEHAVIORAL, signal_name = ''severity_moderate'',
             description = ''Moderate panic severity detected'',
             weight = SIGNAL_WEIGHTS_get ''severity_moderate'' 0, confidence = conf,
             source = ''panic_classifier''\<rparr>]
         else [])"

fun risk_emotions :: "EmotionCategory \<Rightarrow> string option" where
  "risk_emotions DREAD = Some ''emotion_dread''"
| "risk_emotions DISSOCIATION = Some ''emotion_dissociation''"
| "risk_emotions HELPLESSNESS = Some ''emotion_helplessness''"
| "risk_emotions LOSS_OF_CONTROL = Some ''emotion_loss_of_control''"
| "risk_emotions _ = None"

definition emotion_signal :: "EmotionScore \<Rightarrow> RiskSignal option" where
  "emotion_signal e =
     (case risk_emotions (EmotionScore.category e) of
        None \<Rightarrow> None
      | Some name \<Rightarrow>
          if EmotionScore.confidence e > 0.5 then
            Some \<lparr>signal_type = RiskSignalType.EMOTIONAL, signal_name = name,
                  description = ''High '' @ EmotionCategory_value (EmotionScore.category e) @ '' detected'',
                  weight = SIGNAL_WEIGHTS_get name 0.1, confidence = EmotionScore.confidence e,
                  source = ''emotion_detector''\<rparr>
          else None)"

definition extract_emotion_signals :: "ClinicalAssessment \<Rightarrow> RiskSignal list" where
  "extract_emotion_signals clinical =
     (let profile = emotion_profile clinical in
      List.map_filter emotion_signal (emotions profile) @
      (if emotional_volatility profile > 0.7 then
         [\<lparr>signal_type = RiskSignalType.EMOTIONAL, signal_name = ''high_volatility'',
           description = ''High emotional volatility detected'',
           weight = SIGNAL_WEIGHTS_get ''high_volatility'' 0,
           confidence = emotional_volatility profile, source = ''emotion_detector''\<rparr>]
       else []))"

definition extract_distress_signals :: "ClinicalAssessment \<Rightarrow> RiskSignal list" where
  "extract_distress_signals clinical =
     (let distress = distress_indicators clinical in
      if overall_distress_level distress > 0.7 then
        [\<lparr>signal_type = RiskSignalType.BEHAVIORAL, signal_name = ''high_distress'',
          description = ''High overall distress level'',
          weight = SIGNAL_WEIGHTS_get ''high_distress'' 0,
          confidence = overall_distress_level distress, source = ''distress_indicators''\<rparr>]
      else [])"

text \<open>
  A history entry is a dictionary; \<open>h.get("risk_score", 0)\<close> reads it. An absent history and
  an empty one are treated alike by the source, so the history is a list.
\<close>

definition history_risk_score :: "(string \<times> real) list \<Rightarrow> real" where
  "history_risk_score h = (case map_of h ''risk_score'' of None \<Rightarrow> 0 | Some v \<Rightarrow> v)"

definition extract_historical_signals :: "(string \<times> real) list list \<Rightarrow> RiskSignal list" where
  "extract_historical_signals session_history =
     (if length session_history \<ge> 3 \<and>
         list_all (\<lambda>h. history_risk_score h > 0.4) (last3 session_history)
      then [\<lparr>signal_type = HISTORICAL, signal_name = ''sustained_risk'',
             description = ''Sustained elevated risk over session'',
             weight = 0.15, confidence = 0.8, source = ''session_history''\<rparr>]
      else [])"

definition calculate_risk_score :: "RiskSignal list \<Rightarrow> ClinicalAssessment \<Rightarrow> real \<times> real" where
  "calculate_risk_score sigs clinical =
     (if sigs = [] then (0, 1)
      else
        (let total_weight = sum_list (map weighted_contribution sigs);
             max_weight = sum_list (map (\<lambda>(n, w). \<bar>w\<bar>) SIGNAL_WEIGHTS);
             score = min 1 (total_weight / max_weight);
             avg_confidence = sum_list (map RiskSignal.confidence sigs) / real (length sigs);
             combined_confidence = (avg_confidence + confidence_score clinical) / 2
         in (score, combined_confidence)))"

definition classify_risk_level :: "RiskThresholds \<Rightarrow> real \<Rightarrow> RiskSignal list \<Rightarrow> RiskLevel" where
  "classify_risk_level th score sigs =
     (let count = length sigs;
          types = length (remdups (map signal_type sigs))
      in if score \<ge> critical_threshold th then
           (if count \<ge> min_signals_for_critical th then
              (if \<not> require_multi_signal_types th \<or> types \<ge> 2 then RiskLevel.CRITICAL
               else RiskLevel.HIGH)
            else RiskLevel.HIGH)
         else if score \<ge> high_threshold th then
           (if count \<ge> min_signals_for_high th then RiskLevel.HIGH else RiskLevel.ELEVATED)
         else if score \<ge> elevated_threshold th then RiskLevel.ELEVATED
         else LOW)"

fun determine_actions :: "RiskLevel \<Rightarrow> EscalationAction list" where
  "determine_actions LOW = [CONTINUE_SUPPORT]"
| "determine_actions RiskLevel.ELEVATED = [CONTINUE_SUPPORT, LOG_FOR_REVIEW]"
| "determine_actions RiskLevel.HIGH = [ENCOURAGE_HELP, PRESENT_RESOURCES, LOG_FOR_REVIEW]"
| "determine_actions RiskLevel.CRITICAL = [PRESENT_RESOURCES, ENCOURAGE_HELP, LOG_FOR_REVIEW]"

definition max_level :: "RiskLevel \<Rightarrow> RiskLevel \<Rightarrow> RiskLevel" where
  "max_level a b = (if risk_value b > risk_value a then b else a)"

text \<open>Steps 1 to 5 of \<open>RiskScoringEngine.assess\<close>: the signals, in the order they are appended.\<close>

definition collect_signals :: "ClinicalAssessment \<Rightarrow> (string \<times> real) list list \<Rightarrow> RiskSignal list" where
  "collect_signals clinical session_history =
     extract_severity_signals clinical @
     extract_emotion_signals clinical @
     extract_distress_signals clinical @
     (if requires_crisis_protocol clinical then
        [\<lparr>signal_type = RiskSignalType.BEHAVIORAL, signal_name = ''crisis_protocol_active'',
          description = ''Clinical assessment flagged crisis protocol'',
          weight = SIGNAL_WEIGHTS_get ''crisis_protocol_active'' 0, confidence = 1,
          source = ''clinical_assessment''\<rparr>]
      else []) @
     (if session_history \<noteq> [] then extract_historical_signals session_history else [])"

text \<open>Step 9: an uncertain assessment below \<open>HIGH\<close> with a score above 0.3 is at least \<open>ELEVATED\<close>.\<close>

definition uncertainty_bump :: "bool \<Rightarrow> real \<Rightarrow> RiskLevel \<Rightarrow> RiskLevel" where
  "uncertainty_bump uncertain score level0 =
     (if uncertain \<and> risk_value level0 < risk_value RiskLevel.HIGH \<and> score > 0.3
      then max_level level0 RiskLevel.ELEVATED else level0)"

text \<open>\<open>RiskScoringEngine.assess\<close> for an engine with thresholds \<open>th\<close>.\<close>

definition assess ::
  "RiskThresholds \<Rightarrow> ClinicalAssessment \<Rightarrow> (string \<times> real) list list \<Rightarrow> RiskAssessment" where
  "assess th clinical session_history =
     (let sigs = collect_signals clinical session_history;
          score = fst (calculate_risk_score sigs clinical);
          conf = snd (calculate_risk_score sigs clinical);
          level0 = classify_risk_level th score sigs;
          actions = determine_actions level0;
          low_conf = (conf < low_confidence_threshold th);
          sev_unc = uncertainty_flag (ClinicalAssessment.severity clinical);
          uncertain = (low_conf \<or> sev_unc);
          reasons = (if low_conf then [''low_confidence''] else []) @
                    (if sev_unc then [''severity_uncertain''] else [])
      in RiskAssessment_post_init
           \<lparr>assessment_id = ''r1'',
            user_id = ClinicalAssessment.user_id clinical,
            session_id = ClinicalAssessment.session_id clinical,
            risk_level = uncertainty_bump uncertain score level0,
            risk_score = score, confidence = conf,
            signals = sigs, signal_count = 0,
            has_uncertainty = uncertain, uncertainty_reasons = reasons,
            recommended_actions = actions, requires_human_review = False,
            thresholds_applied =
              [(''critical'', critical_threshold th), (''high'', high_threshold th),
               (''elevated'', elevated_threshold th)]\<rparr>)"

subsection \<open>Crisis detector\<close>

record CrisisSignal =
  signal_name :: string
  description :: string
  category :: string
  weight :: real
  confidence :: real
  pattern_matched :: string

record CrisisDetectionResult =
  has_crisis_signals :: bool
  signals :: "CrisisSignal list"
  linguistic_signal_count :: nat
  emotional_signal_count :: nat
  behavioral_signal_count :: nat
  combined_crisis_score :: real
  meets_multi_signal_requirement :: bool

definition count_category :: "string \<Rightarrow> CrisisSignal list \<Rightarrow> nat" where
  "count_category cat sigs = length (filter (\<lambda>s. CrisisSignal.category s = cat) sigs)"

text \<open>
  \<open>CrisisDetectionResult.__post_init__\<close>. The set of categories is the list of categories
  without duplicates; its size is the length of that list.
\<close>

definition CrisisDetectionResult_post_init :: "CrisisDetectionResult \<Rightarrow> CrisisDetectionResult" where
  "CrisisDetectionResult_post_init r =
     r\<lparr>linguistic_signal_count := count_category ''linguistic'' (CrisisDetectionResult.signals r),
       emotional_signal_count := count_category ''emotional'' (CrisisDetectionResult.signals r),
       behavioral_signal_count := count_category ''behavioral'' (CrisisDetectionResult.signals r),
       meets_multi_signal_requirement :=
         (length (remdups (map CrisisSignal.category (CrisisDetectionResult.signals r))) \<ge> 2)\<rparr>"

definition to_risk_signals :: "CrisisDetectionResult \<Rightarrow> RiskSignal list" where
  "to_risk_signals r =
     map (\<lambda>s. \<lparr>signal_type =
                   (if CrisisSignal.category s = ''linguistic'' then LINGUISTIC
                    else if CrisisSignal.category s = ''emotional'' then RiskSignalType.EMOTIONAL
                    else RiskSignalType.BEHAVIORAL),
                 RiskSignal.signal_name = CrisisSignal.signal_name s,
                 RiskSignal.description = CrisisSignal.description s,
                 RiskSignal.weight = CrisisSignal.weight s,
                 RiskSignal.confidence = CrisisSignal.confidence s,
                 source = ''crisis_detector''\<rparr>)
         (CrisisDetectionResult.signals r)"

definition MIN_SIGNALS_FOR_CONCERN :: nat where
  "MIN_SIGNALS_FOR_CONCERN = 2"

definition analyze_emotions :: "ClinicalAssessment \<Rightarrow> CrisisSignal list" where
  "analyze_emotions clinical =
     (let profile = emotion_profile clinical;
          dread_score = get_emotion_score profile DREAD;
          dissoc_score = get_emotion_score profile DISSOCIATION;
          helpless_score = get_emotion_score profile HELPLESSNESS
      in (if dread_score > 0.7 then
            [\<lparr>signal_name = ''severe_dread'', description = ''Severe dread/impending doom detected'',
              category = ''emotional'', weight = 0.25, confidence = dread_score,
              pattern_matched = []\<rparr>]
          else []) @
         (if dissoc_score > 0.6 then
            [\<lparr>signal_name = ''dissociation'', description = ''Significant dissociation detected'',
              category = ''emotional'', weight = 0.20, confidence = dissoc_score,
              pattern_matched = []\<rparr>]
          else []) @
         (if helpless_score > 0.7 then
            [\<lparr>signal_name = ''severe_helplessness'', description = ''Severe helplessness detected'',
              category = ''emotional'', weight = 0.25, confidence = helpless_score,
              pattern_matched = []\<rparr>]
          else []) @
         (if severity_value (predicted_severity (ClinicalAssessment.severity clinical))
               \<ge> severity_value SEVERE \<and> emotions profile = [] then
            [\<lparr>signal_name = ''emotional_shutdown'', description = ''Emotional shutdown at high severity'',
              category = ''emotional'', weight = 0.20, confidence = 0.7,
              pattern_matched = []\<rparr>]
          else []))"

definition analyze_behavioral :: "ClinicalAssessment \<Rightarrow> CrisisSignal list" where
  "analyze_behavioral clinical =
     (if severity_value (predicted_severity (ClinicalAssessment.severity clinical))
           \<ge> severity_value PanicSeverity.CRITICAL then
        [\<lparr>signal_name = ''critical_severity'', description = ''Critical panic severity level'',
          category = ''behavioral'', weight = 0.30,
          confidence = SeverityClassification.confidence (ClinicalAssessment.severity clinical),
          pattern_matched = []\<rparr>]
      else [])"

definition analyze_distress :: "ClinicalAssessment \<Rightarrow> CrisisSignal list" where
  "analyze_distress clinical =
     (let distress = distress_indicators clinical in
      (if overall_distress_level distress > 0.8 then
         [\<lparr>signal_name = ''extreme_distress'', description = ''Extreme overall distress level'',
           category = ''behavioral'', weight = 0.25, confidence = overall_distress_level distress,
           pattern_matched = []\<rparr>]
       else []) @
      (if indicator_count distress \<ge> 4 then
         [\<lparr>signal_name = ''multi_domain_distress'', description = ''Distress across multiple domains'',
           category = ''behavioral'', weight = 0.15, confidence = 0.8,
           pattern_matched = []\<rparr>]
       else []))"

definition calculate_combined_score :: "CrisisSignal list \<Rightarrow> real" where
  "calculate_combined_score sigs =
     (if sigs = [] then 0
      else min 1 (sum_list (map (\<lambda>s. CrisisSignal.weight s * CrisisSignal.confidence s) sigs)))"

text \<open>\<open>CrisisDetector.detect\<close>.\<close>

definition detect :: "ClinicalAssessment \<Rightarrow> CrisisDetectionResult" where
  "detect clinical =
     (let sigs = analyze_emotions clinical @
                 analyze_behavioral clinical @
                 analyze_distress clinical @
                 (if requires_crisis_protocol clinical then
                    [\<lparr>signal_name = ''crisis_protocol_flag'',
                      description = ''Clinical pipeline flagged crisis'',
                      category = ''behavioral'', weight = 0.35, confidence = 1,
                      pattern_matched = []\<rparr>]
                  else [])
      in CrisisDetectionResult_post_init
           \<lparr>has_crisis_signals = (length sigs \<ge> MIN_SIGNALS_FOR_CONCERN),
            signals = sigs,
            linguistic_signal_count = 0, emotional_signal_count = 0, behavioral_signal_count = 0,
            combined_crisis_score = calculate_combined_score sigs,
            meets_multi_signal_requirement = False\<rparr>)"

text \<open>Sample inputs: a signal of a given type, and an assessment flagged for the crisis protocol by its producer at mild severity.\<close>

definition signal_of_type :: "RiskSignalType \<Rightarrow> RiskSignal" where
  "signal_of_type t =
     \<lparr>signal_type = t, RiskSignal.signal_name = ''sample'', RiskSignal.description = [],
      RiskSignal.weight = 0.3, RiskSignal.confidence = 1, source = ''unknown''\<rparr>"

definition flagged_mild_assessment :: ClinicalAssessment where
  "flagged_mild_assessment =
     ClinicalAssessment_post_init
       ((assessment_fields ''u1'' (default_SeverityClassification MILD 0.8))
          \<lparr>requires_crisis_protocol := True\<rparr>)"

text \<open>The assessment of the unit tests with critical severity at confidence 0.9 and nothing else.\<close>

definition critical_only_assessment :: ClinicalAssessment where
  "critical_only_assessment =
     assessment_with ''u1'' (default_SeverityClassification PanicSeverity.CRITICAL 0.9)"

subsection \<open>Text\<close>

text \<open>
  Text is a list of 8-bit characters, read as the code points 0 to 255. The one character
  of the source's literals beyond that range, the bullet U+2022, is written as the code
  point 0x95: like the bullet it is neither white space, nor a digit, nor a word character,
  and no pattern below names it, so every function of this theory treats the two alike.
\<close>

definition bullet :: char where
  "bullet = CHR 0x95"

text \<open>\<open>str.isspace\<close> on one character, which is also the class \<open>\s\<close> of the \<open>re\<close> module.\<close>

definition is_space :: "char \<Rightarrow> bool" where
  "is_space c \<longleftrightarrow>
     c \<in> set [CHR 0x09, CHR 0x0A, CHR 0x0B, CHR 0x0C, CHR 0x0D, CHR 0x1C, CHR 0x1D, CHR 0x1E,
              CHR 0x1F, CHR 0x20, CHR 0x85, CHR 0xA0]"

text \<open>\<open>str.strip()\<close>.\<close>

definition strip :: "string \<Rightarrow> string" where
  "strip s = rev (dropWhile is_space (rev (dropWhile is_space s)))"

text \<open>\<open>sep.join(lines)\<close> with the newline as separator.\<close>

fun join_lines :: "string list \<Rightarrow> string" where
  "join_lines [] = []"
| "join_lines [l] = l"
| "join_lines (l # ls) = l @ CHR 0x0A # join_lines ls"

text \<open>\<open>needle in text\<close>.\<close>

fun starts_with :: "string \<Rightarrow> string \<Rightarrow> bool" where
  "starts_with [] s = True"
| "starts_with (p # ps) [] = False"
| "starts_with (p # ps) (c # cs) = (p = c \<and> starts_with ps cs)"

fun contains :: "string \<Rightarrow> string \<Rightarrow> bool" where
  "contains p [] = (p = [])"
| "contains p (c # cs) = (starts_with p (c # cs) \<or> contains p cs)"

subsection \<open>Emergency resources\<close>

record EmergencyResource =
  name :: string
  resource_type :: string
  contact :: string
  description :: string
  available_24_7 :: bool
  languages :: "string list"

definition format_for_user :: "EmergencyResource \<Rightarrow> string" where
  "format_for_user r =
     bullet # '' **'' @ name r @ ''**: '' @ contact r @ '' '' @
     (if available_24_7 r then ''(24/7)'' else [])"

record JurisdictionResources =
  country_code :: string
  country_name :: string
  region_code :: "string option"
  region_name :: "string option"
  resources :: "EmergencyResource list"
  emergency_number :: string
  mental_health_resources :: "EmergencyResource list"

definition DEFAULT_RESOURCES :: JurisdictionResources where
  "DEFAULT_RESOURCES =
     \<lparr>country_code = ''INTL'', country_name = ''International'',
      region_code = None, region_name = None,
      resources =
        [\<lparr>name = ''International Association for Suicide Prevention'', resource_type = ''website'',
          contact = ''https://www.iasp.info/resources/Crisis_Centres/'',
          description = ''Directory of crisis centers worldwide'',
          available_24_7 = True, languages = [''en'']\<rparr>,
         \<lparr>name = ''Befrienders Worldwide'', resource_type = ''website'',
          contact = ''https://www.befrienders.org/'',
          description = ''Emotional support centers globally'',
          available_24_7 = True, languages = [''en'']\<rparr>],
      emergency_number = [], mental_health_resources = []\<rparr>"

definition BUILT_IN_RESOURCES :: "(string \<times> JurisdictionResources) list" where
  "BUILT_IN_RESOURCES =
     [(''US'',
       \<lparr>country_code = ''US'', country_name = ''United States'',
        region_code = None, region_name = None,
        resources =
          [\<lparr>name = ''988 Suicide & Crisis Lifeline'', resource_type = ''hotline'',
            contact = ''988'', description = ''National suicide prevention lifeline'',
            available_24_7 = True, languages = [''en'', ''es'']\<rparr>,
           \<lparr>name = ''Crisis Text Line'', resource_type = ''text'',
            contact = ''Text HOME to 741741'', description = ''Text-based crisis support'',
            available_24_7 = True, languages = [''en'']\<rparr>,
           \<lparr>name = ''SAMHSA National Helpline'', resource_type = ''hotline'',
            contact = ''1-800-662-4357'', description = ''Substance abuse and mental health'',
            available_24_7 = True, languages = [''en'']\<rparr>],
        emergency_number = ''911'', mental_health_resources = []\<rparr>),
      (''GB'',
       \<lparr>country_code = ''GB'', country_name = ''United Kingdom'',
        region_code = None, region_name = None,
        resources =
          [\<lparr>name = ''Samaritans'', resource_type = ''hotline'',
            contact = ''116 123'', description = ''Emotional support for anyone in distress'',
            available_24_7 = True, languages = [''en'']\<rparr>,
           \<lparr>name = ''SHOUT'', resource_type = ''text'',
            contact = ''Text SHOUT to 85258'', description = ''Text-based mental health support'',
            available_24_7 = True, languages = [''en'']\<rparr>],
        emergency_number = ''999'', mental_health_resources = []\<rparr>),
      (''SA'',
       \<lparr>country_code = ''SA'', country_name = ''Saudi Arabia'',
        region_code = None, region_name = None,
        resources =
          [\<lparr>name = ''Mental Health Hotline'', resource_type = ''hotline'',
            contact = ''920033360'', description = ''National mental health support line'',
            available_24_7 = True, languages = [''ar'', ''en'']\<rparr>],
        emergency_number = ''911'', mental_health_resources = []\<rparr>),
      (''AE'',
       \<lparr>country_code = ''AE'', country_name = ''United Arab Emirates'',
        region_code = None, region_name = None,
        resources =
          [\<lparr>name = ''Dubai Health Authority Mental Health'', resource_type = ''hotline'',
            contact = ''800342'', description = ''Mental health support line'',
            available_24_7 = False, languages = [''ar'', ''en'']\<rparr>],
        emergency_number = ''999'', mental_health_resources = []\<rparr>),
      (''EG'',
       \<lparr>country_code = ''EG'', country_name = ''Egypt'',
        region_code = None, region_name = None,
        resources =
          [\<lparr>name = ''Befrienders Cairo'', resource_type = ''hotline'',
            contact = ''+20 2 7621602'', description = ''Emotional support helpline'',
            available_24_7 = False, languages = [''ar'', ''en'']\<rparr>],
        emergency_number = ''123'', mental_health_resources = []\<rparr>)]"

text \<open>
  The resolver is its table of jurisdictions: the built-in one, or that table overridden by
  a configuration file. \<open>get_resources\<close> tries the key with the region, then the country,
  then falls back to the international resources.
\<close>

type_synonym EmergencyResourceResolver = "(string \<times> JurisdictionResources) list"

definition get_resources ::
  "EmergencyResourceResolver \<Rightarrow> string \<Rightarrow> string option \<Rightarrow> JurisdictionResources" where
  "get_resources table cc region =
     (let key = (case region of
                   None \<Rightarrow> cc
                 | Some r \<Rightarrow> if r = [] then cc else cc @ '':'' @ r)
      in case map_of table key of
           Some j \<Rightarrow> j
         | None \<Rightarrow> (case map_of table cc of Some j \<Rightarrow> j | None \<Rightarrow> DEFAULT_RESOURCES))"

definition format_crisis_message :: "EmergencyResourceResolver \<Rightarrow> string \<Rightarrow> bool \<Rightarrow> string" where
  "format_crisis_message table cc include_emergency =
     (let res = get_resources table cc None in
      join_lines
        ([''---'',
          ''**If you're in crisis or having thoughts of self-harm:**'' @ [CHR 0x0A]] @
         (if include_emergency \<and> emergency_number res \<noteq> []
          then [bullet # '' **Emergency**: '' @ emergency_number res] else []) @
         map format_for_user (take 3 (resources res)) @
         [[], ''You don't have to face this alone. Professional support is available.'']))"

subsection \<open>Escalation manager\<close>

record EscalationEvent =
  user_id :: "string option"
  session_id :: "string option"
  risk_assessment_id :: "string option"
  previous_risk_level :: RiskLevel
  new_risk_level :: RiskLevel
  actions_taken :: "EscalationAction list"
  resources_provided :: "string list"
  ai_response_given :: string
  response_was_modified :: bool
  human_review_status :: string
  human_reviewer_id :: "string option"
  review_notes :: string

record EscalationDecision =
  should_escalate :: bool
  current_level :: RiskLevel
  actions :: "EscalationAction list"
  response_modifications :: "(string \<times> modifier_value) list"
  resources_to_include :: "string option"
  log_event :: "EscalationEvent option"

record EscalationManager =
  resolver :: EmergencyResourceResolver
  event_log :: "EscalationEvent list"

definition new_manager :: EscalationManager where
  "new_manager = \<lparr>resolver = BUILT_IN_RESOURCES, event_log = []\<rparr>"

definition modifications_for ::
  "string \<Rightarrow> bool \<Rightarrow> bool \<Rightarrow> bool \<Rightarrow> bool \<Rightarrow> (string \<times> modifier_value) list" where
  "modifications_for t res help brief crisis =
     [(''tone'', MStr t), (''include_resources'', MBool res),
      (''encourage_professional_help'', MBool help), (''keep_brief'', MBool brief),
      (''crisis_mode'', MBool crisis)]"

fun level_modifications :: "RiskLevel \<Rightarrow> (string \<times> modifier_value) list" where
  "level_modifications LOW = modifications_for ''warm'' False False False False"
| "level_modifications RiskLevel.ELEVATED = modifications_for ''calm'' False True False False"
| "level_modifications RiskLevel.HIGH = modifications_for ''calm'' True True True False"
| "level_modifications RiskLevel.CRITICAL = modifications_for ''direct'' True True True True"

definition build_modifications :: "RiskLevel \<Rightarrow> RiskAssessment \<Rightarrow> (string \<times> modifier_value) list" where
  "build_modifications level risk =
     level_modifications level @
     (if has_uncertainty risk then [(''acknowledge_uncertainty'', MBool True)] else [])"

definition create_event ::
  "RiskAssessment \<Rightarrow> RiskLevel \<Rightarrow> EscalationAction list \<Rightarrow> bool \<Rightarrow> EscalationEvent" where
  "create_event risk previous_level acts provided =
     \<lparr>user_id = RiskAssessment.user_id risk,
      session_id = RiskAssessment.session_id risk,
      risk_assessment_id = Some (RiskAssessment.assessment_id risk),
      previous_risk_level = previous_level,
      new_risk_level = risk_level risk,
      actions_taken = acts,
      resources_provided = (if provided then [''crisis_message''] else []),
      ai_response_given = [],
      response_was_modified = False,
      human_review_status = ''pending'',
      human_reviewer_id = None,
      review_notes = []\<rparr>"

text \<open>
  \<open>EscalationManager.evaluate\<close>: the decision and the manager with its audit log. Every
  member of \<open>RiskLevel\<close> is a non-zero integer, so \<open>if previous_level\<close> asks whether a
  previous level was supplied.
\<close>

definition escalation_evaluate ::
  "EscalationManager \<Rightarrow> RiskAssessment \<Rightarrow> string \<Rightarrow> RiskLevel option
     \<Rightarrow> EscalationDecision \<times> EscalationManager" where
  "escalation_evaluate m risk cc previous_level =
     (let cur = risk_level risk;
          escalate = (case previous_level of
                        None \<Rightarrow> False
                      | Some p \<Rightarrow> risk_value cur > risk_value p);
          acts = recommended_actions risk;
          modifications = build_modifications cur risk;
          resources_text =
            (if risk_value cur \<ge> risk_value RiskLevel.HIGH
             then Some (format_crisis_message (resolver m) cc
                          (risk_value cur \<ge> risk_value RiskLevel.CRITICAL))
             else None);
          event =
            (if escalate \<or> risk_value cur \<ge> risk_value RiskLevel.HIGH
             then Some (create_event risk
                          (case previous_level of None \<Rightarrow> LOW | Some p \<Rightarrow> p)
                          acts
                          (case resources_text of None \<Rightarrow> False | Some t \<Rightarrow> t \<noteq> []))
             else None)
      in (\<lparr>should_escalate = escalate, current_level = cur, actions = acts,
           response_modifications = modifications, resources_to_include = resources_text,
           log_event = event\<rparr>,
          (case event of None \<Rightarrow> m | Some e \<Rightarrow> m\<lparr>event_log := event_log m @ [e]\<rparr>)))"

fun get_response_prefix :: "RiskLevel \<Rightarrow> string" where
  "get_response_prefix LOW = []"
| "get_response_prefix RiskLevel.ELEVATED =
     ''I hear you, and I want you to know that what you're feeling is valid. ''"
| "get_response_prefix RiskLevel.HIGH =
     ''I'm really glad you're sharing this with me. '' @
     ''What you're going through sounds incredibly difficult, '' @
     ''and I want to make sure you have the support you need. ''"
| "get_response_prefix RiskLevel.CRITICAL =
     ''I hear you, and I'm concerned about what you're sharing. '' @
     ''Your safety matters deeply. ''"

definition get_response_suffix :: "EscalationManager \<Rightarrow> RiskLevel \<Rightarrow> string \<Rightarrow> string" where
  "get_response_suffix m level cc =
     (if risk_value level < risk_value RiskLevel.HIGH then []
      else
        [CHR 0x0A, CHR 0x0A] @
        ''Please consider reaching out to a mental health professional '' @
        ''or someone you trust. You don't have to go through this alone.'' @
        (if risk_value level \<ge> risk_value RiskLevel.HIGH
         then CHR 0x0A # format_crisis_message (resolver m) cc True else []))"

definition modify_response :: "EscalationManager \<Rightarrow> string \<Rightarrow> EscalationDecision \<Rightarrow> string \<Rightarrow> string" where
  "modify_response m response decision cc =
     (let level = current_level decision;
          prefix = get_response_prefix level;
          suffix0 = get_response_suffix m level cc;
          suffix = (case resources_to_include decision of
                      None \<Rightarrow> suffix0
                    | Some t \<Rightarrow> if t = [] then suffix0 else CHR 0x0A # t)
      in strip (prefix @ response @ suffix))"

subsection \<open>Regular expressions\<close>

text \<open>
  The fragment of Python's \<open>re\<close> that the patterns of the safety layer use, matched as
  \<open>re\<close> matches: by backtracking, the alternatives of \<open>|\<close> from left to right, an
  optional group first with the group and then without, a repetition greedily. All
  patterns are compiled with \<open>re.IGNORECASE\<close> and their literals are written in lower case;
  among the code points 0 to 255 a literal letter matches itself and its ASCII capital, any
  other literal character only itself.
\<close>

definition to_lower :: "char \<Rightarrow> char" where
  "to_lower c =
     (let n = (of_char c :: nat) in if 65 \<le> n \<and> n \<le> 90 then char_of (n + 32) else c)"

text \<open>The classes \<open>\d\<close> and \<open>\w\<close> of a Unicode pattern, on the code points 0 to 255.\<close>

definition is_digit :: "char \<Rightarrow> bool" where
  "is_digit c \<longleftrightarrow> (let n = (of_char c :: nat) in 48 \<le> n \<and> n \<le> 57)"

definition is_word :: "char \<Rightarrow> bool" where
  "is_word c \<longleftrightarrow>
     (let n = (of_char c :: nat) in
      (48 \<le> n \<and> n \<le> 57) \<or> (65 \<le> n \<and> n \<le> 90) \<or> n = 95 \<or> (97 \<le> n \<and> n \<le> 122) \<or>
      n = 170 \<or> n = 178 \<or> n = 179 \<or> n = 181 \<or> n = 185 \<or> n = 186 \<or>
      (188 \<le> n \<and> n \<le> 190) \<or> (192 \<le> n \<and> n \<le> 214) \<or> (216 \<le> n \<and> n \<le> 246) \<or>
      (248 \<le> n \<and> n \<le> 255))"

datatype cclass = Space | Digit | Dot | Exactly char

fun in_class :: "cclass \<Rightarrow> char \<Rightarrow> bool" where
  "in_class Space c = is_space c"
| "in_class Digit c = is_digit c"
| "in_class Dot c = (c \<noteq> CHR 0x0A)"
| "in_class (Exactly d) c = (c = d)"

datatype regex =
    Str string
  | Seq regex regex
  | Alt regex regex
  | Opt regex
  | Rep nat cclass
  | Bnd

text \<open>
  A literal string with case ignored. The result is the text left over, with the character
  just before it, which the word boundary needs.
\<close>

fun match_str :: "string \<Rightarrow> char option \<Rightarrow> string \<Rightarrow> (char option \<times> string) option" where
  "match_str [] prev s = Some (prev, s)"
| "match_str (c # cs) prev [] = None"
| "match_str (c # cs) prev (x # xs) = (if to_lower x = c then match_str cs (Some x) xs else None)"

text \<open>\<open>c{n,}\<close> for a character class, the longest run first.\<close>

fun match_rep :: "nat \<Rightarrow> cclass \<Rightarrow> char option \<Rightarrow> string \<Rightarrow> (char option \<times> string) list" where
  "match_rep n c prev [] = (if n = 0 then [(prev, [])] else [])"
| "match_rep n c prev (x # xs) =
     (if in_class c x then match_rep (n - 1) c (Some x) xs else []) @
     (if n = 0 then [(prev, x # xs)] else [])"

definition at_boundary :: "char option \<Rightarrow> string \<Rightarrow> bool" where
  "at_boundary prev s \<longleftrightarrow>
     (case prev of None \<Rightarrow> False | Some p \<Rightarrow> is_word p) \<noteq>
     (case s of [] \<Rightarrow> False | x # _ \<Rightarrow> is_word x)"

text \<open>
  Every way the pattern matches a prefix of the text, in the order in which backtracking
  tries them: the head of the list is the match that \<open>re\<close> reports at this position.
\<close>

fun rmatch :: "regex \<Rightarrow> char option \<Rightarrow> string \<Rightarrow> (char option \<times> string) list" where
  "rmatch (Str p) prev s = (case match_str p prev s of None \<Rightarrow> [] | Some r \<Rightarrow> [r])"
| "rmatch (Seq a b) prev s = concat (map (\<lambda>(p, r). rmatch b p r) (rmatch a prev s))"
| "rmatch (Alt a b) prev s = rmatch a prev s @ rmatch b prev s"
| "rmatch (Opt a) prev s = rmatch a prev s @ [(prev, s)]"
| "rmatch (Rep n c) prev s = match_rep n c prev s"
| "rmatch Bnd prev s = (if at_boundary prev s then [(prev, s)] else [])"

text \<open>\<open>pattern.search(text)\<close>: the text of the leftmost match, \<open>match.group(0)\<close>.\<close>

fun search_from :: "regex \<Rightarrow> char option \<Rightarrow> string \<Rightarrow> string option" where
  "search_from r prev [] = (case rmatch r prev [] of [] \<Rightarrow> None | m # _ \<Rightarrow> Some [])"
| "search_from r prev (x # xs) =
     (case rmatch r prev (x # xs) of
        [] \<Rightarrow> search_from r (Some x) xs
      | (p, rest) # _ \<Rightarrow> Some (take (length (x # xs) - length rest) (x # xs)))"

definition search :: "regex \<Rightarrow> string \<Rightarrow> string option" where
  "search r s = search_from r None s"

text \<open>
  \<open>pattern.sub(repl, text)\<close>: the matches from left to right, none overlapping, each
  replaced; an empty match is replaced too and the scan then moves one character on.
\<close>

function sub_from :: "regex \<Rightarrow> string \<Rightarrow> char option \<Rightarrow> string \<Rightarrow> string" where
  "sub_from r repl prev [] = (case rmatch r prev [] of [] \<Rightarrow> [] | m # _ \<Rightarrow> repl)"
| "sub_from r repl prev (x # xs) =
     (case rmatch r prev (x # xs) of
        [] \<Rightarrow> x # sub_from r repl (Some x) xs
      | (p, rest) # _ \<Rightarrow>
          if length rest < length (x # xs) then repl @ sub_from r repl p rest
          else repl @ x # sub_from r repl (Some x) xs)"
  by pat_completeness auto
termination
  by (relation "measure (\<lambda>(r, repl, prev, s). length s)") auto

definition sub :: "regex \<Rightarrow> string \<Rightarrow> string \<Rightarrow> string" where
  "sub r repl s = sub_from r repl None s"

text \<open>Patterns are written with two helpers: a sequence, and an alternation of words.\<close>

fun seqs :: "regex \<Rightarrow> regex list \<Rightarrow> regex" where
  "seqs r [] = r"
| "seqs r (q # qs) = Seq r (seqs q qs)"

fun words :: "string \<Rightarrow> string list \<Rightarrow> regex" where
  "words w [] = Str w"
| "words w (v # vs) = Alt (Str w) (words v vs)"

subsection \<open>Safety validator\<close>

record SafetyViolation =
  rule_id :: string
  rule_description :: string
  matched_content :: string
  severity :: string

record SafetyResult =
  is_safe :: bool
  original_response :: string
  filtered_response :: string
  violations :: "SafetyViolation list"
  was_modified :: bool
  blocked :: bool

definition SafetyResult_post_init :: "SafetyResult \<Rightarrow> SafetyResult" where
  "SafetyResult_post_init r =
     (if filtered_response r = [] then r\<lparr>filtered_response := original_response r\<rparr> else r)"

definition MEDICAL_DIAGNOSIS :: regex where
  "MEDICAL_DIAGNOSIS =
     seqs (Str ''you '')
       [words ''have'' [''are suffering from'', ''are experiencing''],
        Rep 1 Space,
        Opt (Seq (Str ''a'') (Rep 1 Space)),
        words ''panic disorder'' [''anxiety disorder'', ''depression'', ''ptsd'', ''bipolar'',
          ''schizophrenia'', ''ocd'', ''mental illness'']]"

definition MEDICATION_ADVICE :: regex where
  "MEDICATION_ADVICE =
     seqs (words ''take'' [''try'', ''consider''])
       [Rep 1 Space,
        Opt (Seq (Rep 1 Digit) (Rep 0 Space)),
        words ''mg'' [''milligram'', ''pill'', ''tablet'', ''dose'']]"

definition MEDICATION_RECOMMENDATION :: regex where
  "MEDICATION_RECOMMENDATION =
     words ''xanax'' [''valium'', ''ativan'', ''klonopin'', ''prozac'', ''zoloft'', ''lexapro'',
       ''benzodiazepine'', ''ssri'', ''antidepressant'', ''anti-anxiety'', ''anxiolytic'']"

definition REPLACE_THERAPY :: regex where
  "REPLACE_THERAPY =
     seqs (words ''don't need'' [''no need for'', ''instead of'', ''better than''])
       [Rep 1 Space,
        words ''therapy'' [''therapist'', ''doctor'', ''professional'', ''psychiatrist'']]"

definition GUARANTEE_CURE :: regex where
  "GUARANTEE_CURE =
     seqs (words ''will'' [''can'', ''going to''])
       [Rep 1 Space,
        words ''cure'' [''fix'', ''heal'', ''eliminate''],
        Rep 1 Space,
        words ''your'' [''the''],
        Rep 1 Space,
        words ''anxiety'' [''panic'', ''depression'', ''condition'']]"

definition DISMISSIVE :: regex where
  "DISMISSIVE =
     Seq (Opt (Seq (Str ''just'') (Rep 1 Space)))
       (Alt (words ''calm down'' [''relax'', ''stop worrying'', ''get over it''])
         (Alt (seqs (Str ''it's '') [Opt (Str ''all ''), Str ''in your head''])
              (seqs (Str ''don't be '') [Opt (Seq (Str ''so'') (Rep 1 Space)), Str ''dramatic''])))"

definition HARD_CONSTRAINT_PATTERNS :: "(string \<times> regex \<times> string) list" where
  "HARD_CONSTRAINT_PATTERNS =
     [(''MEDICAL_DIAGNOSIS'', MEDICAL_DIAGNOSIS, ''Response contains medical diagnosis''),
      (''MEDICATION_ADVICE'', MEDICATION_ADVICE, ''Response contains medication dosage advice''),
      (''MEDICATION_RECOMMENDATION'', MEDICATION_RECOMMENDATION,
         ''Response recommends specific medication''),
      (''REPLACE_THERAPY'', REPLACE_THERAPY, ''Response discourages professional help''),
      (''GUARANTEE_CURE'', GUARANTEE_CURE, ''Response promises cure''),
      (''DISMISSIVE'', DISMISSIVE, ''Response is dismissive of user's experience'')]"

definition EXCESSIVE_CERTAINTY :: regex where
  "EXCESSIVE_CERTAINTY =
     seqs Bnd
       [words ''definitely'' [''certainly'', ''absolutely'', ''100%'', ''guaranteed''], Bnd]"

definition COMPARATIVE_MINIMIZING :: regex where
  "COMPARATIVE_MINIMIZING = words ''others have it worse'' [''could be worse'', ''at least'']"

definition FILTER_PATTERNS :: "(string \<times> regex \<times> string) list" where
  "FILTER_PATTERNS =
     [(''EXCESSIVE_CERTAINTY'', EXCESSIVE_CERTAINTY, ''Response contains excessive certainty''),
      (''COMPARATIVE_MINIMIZING'', COMPARATIVE_MINIMIZING, ''Response minimizes by comparison'')]"

definition CRISIS_HOTLINE :: regex where
  "CRISIS_HOTLINE =
     Alt (Str ''988'')
       (Alt (seqs (Str ''crisis'') [Rep 0 Space, words ''line'' [''hotline'']])
            (seqs (Str ''suicide'') [Rep 0 Space, words ''prevention'' [''hotline'']]))"

definition PROFESSIONAL_HELP :: regex where
  "PROFESSIONAL_HELP = words ''professional'' [''therapist'', ''counselor'', ''doctor'', ''emergency'']"

definition CRISIS_REQUIRED_ELEMENTS :: "(string \<times> regex) list" where
  "CRISIS_REQUIRED_ELEMENTS =
     [(''CRISIS_HOTLINE'', CRISIS_HOTLINE), (''PROFESSIONAL_HELP'', PROFESSIONAL_HELP)]"

definition FALLBACK_RESPONSE :: string where
  "FALLBACK_RESPONSE =
     ''I hear you, and I want to make sure you get the best support possible. '' @
     ''What you're experiencing is real and valid. '' @
     ''If you're in crisis, please reach out to the 988 Suicide & Crisis Lifeline '' @
     ''by calling or texting 988. '' @
     ''A trained counselor can provide immediate support. '' @
     ''I'm here to listen whenever you need.''"

text \<open>The loop over the hard constraints: one blocking violation for each pattern found.\<close>

definition hard_violations :: "string \<Rightarrow> SafetyViolation list" where
  "hard_violations response =
     List.map_filter
       (\<lambda>(rid, pattern, descr).
          case search pattern response of
            None \<Rightarrow> None
          | Some m \<Rightarrow> Some \<lparr>rule_id = rid, rule_description = descr, matched_content = m,
                             severity = ''block''\<rparr>)
       HARD_CONSTRAINT_PATTERNS"

text \<open>
  The loop over the soft filters: each pattern found in the text filtered so far gives a
  warning and is removed from it everywhere.
\<close>

fun apply_filters ::
  "(string \<times> regex \<times> string) list \<Rightarrow> string \<Rightarrow> SafetyViolation list
     \<Rightarrow> string \<times> SafetyViolation list" where
  "apply_filters [] filtered vs = (filtered, vs)"
| "apply_filters ((rid, pattern, descr) # ps) filtered vs =
     (case search pattern filtered of
        None \<Rightarrow> apply_filters ps filtered vs
      | Some m \<Rightarrow>
          apply_filters ps (sub pattern [] filtered)
            (vs @ [\<lparr>rule_id = rid, rule_description = descr, matched_content = m,
                    severity = ''warning''\<rparr>]))"

definition check_crisis_requirements :: "string \<Rightarrow> string list" where
  "check_crisis_requirements response =
     map fst (filter (\<lambda>(nm, pattern). search pattern response = None) CRISIS_REQUIRED_ELEMENTS)"

definition append_crisis_resources :: "string \<Rightarrow> string" where
  "append_crisis_resources response =
     response @
     [CHR 0x0A, CHR 0x0A] @ ''---'' @ [CHR 0x0A] @
     ''**If you're in crisis or having thoughts of self-harm:**'' @ [CHR 0x0A] @
     bullet # '' **988 Suicide & Crisis Lifeline**: Call or text 988 (US)'' @ [CHR 0x0A] @
     bullet # '' **Crisis Text Line**: Text HOME to 741741'' @ [CHR 0x0A] @
     bullet # '' **Emergency**: Call 911 or go to your nearest emergency room'' @ [CHR 0x0A] @
     ''You don't have to face this alone. Professional support is available 24/7.''"

definition clean_response :: "string \<Rightarrow> string" where
  "clean_response response =
     strip (sub (Rep 2 (Exactly CHR '' '')) '' ''
              (sub (Rep 3 (Exactly CHR 0x0A)) [CHR 0x0A, CHR 0x0A] response))"

text \<open>\<open>repr\<close> of a list of plain names, as the f-string prints it.\<close>

fun repr_names :: "string list \<Rightarrow> string" where
  "repr_names [] = []"
| "repr_names [n] = [CHR 0x27] @ n @ [CHR 0x27]"
| "repr_names (n # ns) = [CHR 0x27] @ n @ [CHR 0x27] @ '', '' @ repr_names ns"

text \<open>
  The text and the warnings that \<open>validate\<close> has in hand after the soft filters, the
  check of the crisis elements and the clean-up, just before it builds its result.
\<close>

definition filter_stage :: "string \<Rightarrow> bool \<Rightarrow> string \<times> SafetyViolation list" where
  "filter_stage response is_crisis_response =
     (let (filtered, vs) = apply_filters FILTER_PATTERNS response [];
          missing_required = (if is_crisis_response then check_crisis_requirements filtered else []);
          (filtered1, vs1) =
            (if missing_required \<noteq> [] then
               (append_crisis_resources filtered,
                vs @ [\<lparr>rule_id = ''MISSING_CRISIS_ELEMENTS'',
                        rule_description =
                          ''Added missing crisis elements: ['' @ repr_names missing_required @ '']'',
                        matched_content = [], severity = ''warning''\<rparr>])
             else (filtered, vs))
      in (clean_response filtered1, vs1))"

text \<open>\<open>SafetyValidator.validate\<close>.\<close>

definition validate :: "string \<Rightarrow> bool \<Rightarrow> SafetyResult" where
  "validate response is_crisis_response =
     (if response = [] \<or> strip response = [] then
        SafetyResult_post_init
          \<lparr>is_safe = False, original_response = response,
           filtered_response = FALLBACK_RESPONSE,
           violations = [\<lparr>rule_id = ''EMPTY_RESPONSE'', rule_description = ''Response is empty'',
                          matched_content = [], severity = ''block''\<rparr>],
           was_modified = False, blocked = True\<rparr>
      else if list_ex (\<lambda>v. SafetyViolation.severity v = ''block'') (hard_violations response) then
        SafetyResult_post_init
          \<lparr>is_safe = False, original_response = response,
           filtered_response = FALLBACK_RESPONSE,
           violations = hard_violations response,
           was_modified = False, blocked = True\<rparr>
      else
        (let (filtered, vs) = filter_stage response is_crisis_response;
             all_vs = hard_violations response @ vs
         in SafetyResult_post_init
              \<lparr>is_safe = (filter (\<lambda>v. SafetyViolation.severity v = ''block'') all_vs = []),
               original_response = response,
               filtered_response = filtered,
               violations = all_vs,
               was_modified = (filtered \<noteq> response),
               blocked = False\<rparr>))"

subsection \<open>Linguistic pre-screen\<close>

definition ws :: regex where
  "ws = Rep 1 Space"

definition direct_self_harm_intent :: regex where
  "direct_self_harm_intent =
     seqs (words ''want'' [''going'', ''plan'', ''thinking about'', ''considering''])
       [ws, Opt (Seq (Str ''to'') ws), words ''hurt'' [''harm'', ''kill'', ''end''], ws,
        words ''myself'' [''my life'', ''it all'']]"

definition suicide_ideation :: regex where
  "suicide_ideation =
     Alt (seqs (words ''want'' [''wish'', ''rather''])
            [ws, Opt (Seq (Str ''to'') ws), Opt (Seq (Str ''be'') ws), Str ''dead''])
       (Alt (seqs (words ''don't'' [''do not''])
               [ws, Str ''want'', ws, Str ''to'', ws, words ''live'' [''be here'', ''exist'']])
            (seqs (Str ''wish'')
               [ws, Str ''i'', ws, words ''was'' [''were''], ws, Opt (Seq (Str ''never'') ws),
                Str ''born'']))"

definition method_reference :: regex where
  "method_reference =
     words ''pills'' [''overdose'', ''cut'', ''cutting'', ''jump'', ''jumping'', ''hanging'',
       ''gun'', ''weapon'']"

definition hopelessness_expression :: regex where
  "hopelessness_expression =
     Alt (seqs (Str ''no'') [ws, Alt (seqs (Str ''way'') [ws, Str ''out''])
                                     (words ''hope'' [''point'', ''reason''])])
       (Alt (seqs (Str ''never'') [ws, Str ''get'', ws, Str ''better''])
          (Alt (seqs (Str ''can't'')
                  [ws, Alt (seqs (Str ''go'') [ws, Str ''on''])
                           (seqs (Str ''take'') [ws, words ''it'' [''this''], ws, Str ''anymore''])])
               (seqs (Str ''give'') [ws, Str ''up''])))"

definition farewell_language :: regex where
  "farewell_language =
     Alt (seqs (Str ''goodbye'') [ws, Str ''forever''])
       (Alt (seqs (Str ''won't'')
               [ws, Str ''be'', ws,
                Alt (words ''here'' [''around'']) (seqs (Str ''a'') [ws, Str ''problem''])])
          (Alt (seqs (Str ''better'') [ws, Str ''off'', ws, Str ''without'', ws, Str ''me''])
               (seqs (Str ''saying'') [ws, Str ''goodbye''])))"

definition burden_expression :: regex where
  "burden_expression =
     Alt (seqs (words ''burden'' [''bother'', ''problem''])
            [ws, words ''to'' [''for''], ws, words ''everyone'' [''you'', ''them'', ''others'']])
         (seqs (Str ''everyone'')
            [Rep 0 Dot, Str ''better'', Rep 0 Dot, Str ''without'', ws, Str ''me''])"

definition LINGUISTIC_PATTERNS :: "(string \<times> regex \<times> real) list" where
  "LINGUISTIC_PATTERNS =
     [(''direct_self_harm_intent'', direct_self_harm_intent, 0.40),
      (''suicide_ideation'', suicide_ideation, 0.35),
      (''method_reference'', method_reference, 0.25),
      (''hopelessness_expression'', hopelessness_expression, 0.20),
      (''farewell_language'', farewell_language, 0.30),
      (''burden_expression'', burden_expression, 0.20)]"

text \<open>\<open>LinguisticCrisisAnalyzer.analyze_text\<close>.\<close>

definition analyze_text :: "string \<Rightarrow> CrisisSignal list" where
  "analyze_text text =
     (if text = [] \<or> strip text = [] then []
      else
        List.map_filter
          (\<lambda>(nm, pattern, w).
             case search pattern text of
               None \<Rightarrow> None
             | Some m \<Rightarrow>
                 Some \<lparr>signal_name = nm, CrisisSignal.description = ''Matched pattern: '' @ nm,
                       category = ''linguistic'', weight = w, confidence = 0.9,
                       pattern_matched = m\<rparr>)
          LINGUISTIC_PATTERNS)"

subsection \<open>Safety pipeline\<close>

record SafetyEvaluation =
  risk_assessment :: "RiskAssessment option"
  crisis_detection :: "CrisisDetectionResult option"
  escalation_decision :: "EscalationDecision option"
  final_risk_level :: RiskLevel
  requires_crisis_response :: bool
  requires_human_review :: bool
  response_valid :: bool
  response_was_modified :: bool
  final_response :: string

text \<open>
  The pipeline owns the risk engine (its thresholds), the escalation manager and the cache
  of the last risk level of each session. The validator's strict mode is stored and never
  read.
\<close>

record SafetyPipeline =
  risk_thresholds :: RiskThresholds
  strict_mode :: bool
  escalation_manager :: EscalationManager
  session_risk_cache :: "string \<rightharpoonup> RiskLevel"

definition new_pipeline :: SafetyPipeline where
  "new_pipeline =
     \<lparr>risk_thresholds = default_thresholds, strict_mode = True,
      escalation_manager = new_manager, session_risk_cache = Map.empty\<rparr>"

text \<open>
  Steps 1 to 3 of \<open>SafetyPipeline.evaluate\<close>: the risk assessment with the crisis signals
  merged in, raised to \<open>HIGH\<close> when the multi-signal requirement is met.
\<close>

definition merged_risk :: "RiskThresholds \<Rightarrow> ClinicalAssessment \<Rightarrow> CrisisDetectionResult \<Rightarrow> RiskAssessment" where
  "merged_risk th clinical crisis =
     (let risk = assess th clinical [] in
      if CrisisDetectionResult.has_crisis_signals crisis then
        (let risk1 = risk\<lparr>RiskAssessment.signals := RiskAssessment.signals risk @ to_risk_signals crisis\<rparr>
         in if meets_multi_signal_requirement crisis \<and>
               risk_value (risk_level risk1) < risk_value RiskLevel.HIGH
            then risk1\<lparr>risk_level := RiskLevel.HIGH\<rparr> else risk1)
      else risk)"

text \<open>Step 6: two or more linguistic signals without escalation flag the assessment for review.\<close>

definition linguistic_review :: "string option \<Rightarrow> EscalationDecision \<Rightarrow> RiskAssessment \<Rightarrow> RiskAssessment" where
  "linguistic_review raw_text escalation risk =
     (case raw_text of
        None \<Rightarrow> risk
      | Some t \<Rightarrow>
          if t \<noteq> [] \<and> analyze_text t \<noteq> [] \<and> \<not> should_escalate escalation \<and>
             length (analyze_text t) \<ge> 2
          then risk\<lparr>RiskAssessment.requires_human_review := True\<rparr> else risk)"

text \<open>\<open>SafetyPipeline.evaluate\<close>: the evaluation and the pipeline with its cache and audit log.\<close>

definition pipeline_evaluate ::
  "SafetyPipeline \<Rightarrow> ClinicalAssessment \<Rightarrow> string \<Rightarrow> string \<Rightarrow> string option
     \<Rightarrow> SafetyEvaluation \<times> SafetyPipeline" where
  "pipeline_evaluate p clinical proposed_response cc raw_text =
     (let crisis = detect clinical;
          risk1 = merged_risk (risk_thresholds p) clinical crisis;
          previous_level = (case ClinicalAssessment.session_id clinical of
                              None \<Rightarrow> None
                            | Some sid \<Rightarrow> session_risk_cache p sid);
          cache = (case ClinicalAssessment.session_id clinical of
                     None \<Rightarrow> session_risk_cache p
                   | Some sid \<Rightarrow> (session_risk_cache p)(sid \<mapsto> risk_level risk1));
          escalation = fst (escalation_evaluate (escalation_manager p) risk1 cc previous_level);
          manager = snd (escalation_evaluate (escalation_manager p) risk1 cc previous_level);
          risk2 = linguistic_review raw_text escalation risk1;
          is_crisis_response = (risk_value (risk_level risk2) \<ge> risk_value RiskLevel.HIGH);
          validation = validate proposed_response is_crisis_response;
          final = modify_response manager (filtered_response validation) escalation cc;
          requires_crisis =
            (risk_value (risk_level risk2) \<ge> risk_value RiskLevel.CRITICAL \<or>
             requires_crisis_protocol clinical \<or>
             meets_multi_signal_requirement crisis);
          requires_review =
            (RiskAssessment.requires_human_review risk2 \<or> log_event escalation \<noteq> None)
      in (\<lparr>risk_assessment = Some risk2,
           crisis_detection = Some crisis,
           escalation_decision = Some escalation,
           final_risk_level = risk_level risk2,
           requires_crisis_response = requires_crisis,
           requires_human_review = requires_review,
           response_valid = is_safe validation,
           response_was_modified = (was_modified validation \<or> should_escalate escalation),
           final_response = final\<rparr>,
          p\<lparr>escalation_manager := manager, session_risk_cache := cache\<rparr>))"

text \<open>An assessment without any sign of panic, and the response of the validator's own unit test.\<close>

definition calm_assessment :: ClinicalAssessment where
  "calm_assessment = assessment_with ''u1'' (default_SeverityClassification NONE 0.9)"

definition diagnosis_response :: string where
  "diagnosis_response = ''You definitely have anxiety disorder, take some pills.''"

section \<open>Properties\<close>

subsection \<open>Stability gate and activation gate\<close>

text \<open>
  C5. Whenever the context carries crisis signals or self-harm signals, the stability gate
  answers \<open>PANIC_CRITICAL\<close>, whatever the severity (also \<open>MILD\<close>), the elapsed time, the
  trends and the exercises completed.
\<close>

theorem crisis_signals_override:
  "StabilityContext.has_crisis_signals c \<or> StabilityContext.has_self_harm_signals c \<Longrightarrow> state (evaluate now c) = PANIC_CRITICAL"
  by (auto simp: evaluate_def mk_evaluation_def)

theorem crisis_signals_override_witness:
  "(StabilityContext.has_crisis_signals (allowed_context\<lparr>StabilityContext.has_crisis_signals := True\<rparr>) \<or>
    StabilityContext.has_self_harm_signals (allowed_context\<lparr>StabilityContext.has_crisis_signals := True\<rparr>)) \<and>
   current_severity (allowed_context\<lparr>StabilityContext.has_crisis_signals := True\<rparr>) = MILD \<and>
   state (evaluate 200 (allowed_context\<lparr>StabilityContext.has_crisis_signals := True\<rparr>)) = PANIC_CRITICAL"
  using crisis_signals_override [of "allowed_context\<lparr>StabilityContext.has_crisis_signals := True\<rparr>" 200]
  by (simp add: allowed_context_def)

text \<open>
  C1. The activation gate allows exactly when all six conditions hold: kill-switch off,
  fewer than three errors recorded for the session, no crisis or self-harm signal, at least
  60 seconds elapsed, a regulation exercise completed, stability state at least
  \<open>PANIC_STABILIZING\<close>. The checks run in that order and the first one that fails gives
  the denial reason. In particular, at 30 seconds with the earlier checks passing the gate
  denies with \<open>TIME_THRESHOLD_NOT_MET\<close>, and at 120 seconds with three breathing cycles
  and the remaining conditions satisfied it allows.
\<close>

theorem activation_gate_priority:
  "(allowed (is_allowed g now c ev) \<longleftrightarrow>
      \<not> gemini_disabled g \<and>
      error_count g (StabilityContext.session_id c) < 3 \<and>
      \<not> StabilityContext.has_crisis_signals c \<and> \<not> StabilityContext.has_self_harm_signals c \<and>
      elapsed_seconds now c \<ge> 60 \<and>
      has_completed_exercise c \<and>
      stability_value (the_stability_state now c ev) \<ge> stability_value PANIC_STABILIZING) \<and>
   denial_reason (is_allowed g now c ev) = first_failure (gate_checks g now c ev) \<and>
   (elapsed_seconds now c = 30 \<and> \<not> gemini_disabled g \<and> error_count g (StabilityContext.session_id c) < 3 \<and>
    \<not> StabilityContext.has_crisis_signals c \<and> \<not> StabilityContext.has_self_harm_signals c \<longrightarrow>
      \<not> allowed (is_allowed g now c ev) \<and>
      denial_reason (is_allowed g now c ev) = Some TIME_THRESHOLD_NOT_MET) \<and>
   (elapsed_seconds now c = 120 \<and> breathing_cycles_completed c \<ge> 3 \<and>
    \<not> gemini_disabled g \<and> error_count g (StabilityContext.session_id c) < 3 \<and>
    \<not> StabilityContext.has_crisis_signals c \<and> \<not> StabilityContext.has_self_harm_signals c \<and>
    stability_value (the_stability_state now c ev) \<ge> stability_value PANIC_STABILIZING \<longrightarrow>
      allowed (is_allowed g now c ev) \<and> denial_reason (is_allowed g now c ev) = None)"
  by (cases ev)
     (auto simp: is_allowed_def gate_checks_def the_stability_state_def deny_def Let_def
        has_completed_exercise_def MIN_TIME_SECONDS_def ERROR_THRESHOLD_def MIN_STABILITY_STATE_def)

theorem activation_gate_priority_witness:
  "elapsed_seconds 30 allowed_context = 30 \<and>
   \<not> allowed (is_allowed (new_gate False) 30 allowed_context None) \<and>
   denial_reason (is_allowed (new_gate False) 30 allowed_context None) = Some TIME_THRESHOLD_NOT_MET \<and>
   elapsed_seconds 120 allowed_context = 120 \<and>
   breathing_cycles_completed allowed_context \<ge> 3 \<and>
   state (evaluate 120 allowed_context) = PANIC_STABILIZING \<and>
   allowed (is_allowed (new_gate False) 120 allowed_context None)"
  using activation_gate_priority [of "new_gate False" 30 allowed_context None]
        activation_gate_priority [of "new_gate False" 120 allowed_context None]
  by (simp add: allowed_context_def new_gate_def elapsed_seconds_def error_count_def
        the_stability_state_def evaluate_def mk_evaluation_def has_completed_exercise_def
        severity_trend_def last3_def MIN_TIME_FOR_STABILIZING_SECONDS_def
        MIN_TIME_FOR_RECOVERED_SECONDS_def INTENSITY_IMPROVEMENT_THRESHOLD_def
        is_allowed_def gate_checks_def deny_def MIN_TIME_SECONDS_def ERROR_THRESHOLD_def
        MIN_STABILITY_STATE_def)

subsection \<open>Clinical assessment and decision engine\<close>

text \<open>
  C2. Every clinical assessment whose predicted severity is \<open>CRITICAL\<close> carries the
  crisis-protocol flag once constructed, and the decision engine answers any context around
  such an assessment with strategy \<open>CRISIS\<close>, tone \<open>DIRECT\<close>, crisis resources as the primary
  intervention, and constraints that include that a crisis hotline number must be provided.
\<close>

theorem critical_severity_crisis_decision:
  assumes "predicted_severity (ClinicalAssessment.severity a) = PanicSeverity.CRITICAL"
  shows "requires_crisis_protocol (ClinicalAssessment_post_init a) \<and>
         strategy (decide (ctx\<lparr>clinical_assessment := ClinicalAssessment_post_init a\<rparr>)) = CRISIS \<and>
         tone (decide (ctx\<lparr>clinical_assessment := ClinicalAssessment_post_init a\<rparr>)) = DIRECT \<and>
         primary_intervention (decide (ctx\<lparr>clinical_assessment := ClinicalAssessment_post_init a\<rparr>))
           = Some CRISIS_RESOURCES \<and>
         ''MUST provide crisis hotline number''
           \<in> set (response_constraints (decide (ctx\<lparr>clinical_assessment := ClinicalAssessment_post_init a\<rparr>)))"
proof -
  have flag: "requires_crisis_protocol (ClinicalAssessment_post_init a)"
    using assms by (simp add: ClinicalAssessment_post_init_def Let_def)
  then have "decide (ctx\<lparr>clinical_assessment := ClinicalAssessment_post_init a\<rparr>)
               = crisis_decision (ctx\<lparr>clinical_assessment := ClinicalAssessment_post_init a\<rparr>)"
    by (simp add: decide_def Let_def)
  with flag show ?thesis
    by (simp add: crisis_decision_def)
qed

theorem critical_severity_crisis_decision_witness:
  "predicted_severity (ClinicalAssessment.severity
      (assessment_fields ''u1'' (default_SeverityClassification PanicSeverity.CRITICAL 0.9)))
     = PanicSeverity.CRITICAL \<and>
   requires_crisis_protocol (assessment_with ''u1'' (default_SeverityClassification PanicSeverity.CRITICAL 0.9)) \<and>
   strategy (decide (context_for
      (assessment_with ''u1'' (default_SeverityClassification PanicSeverity.CRITICAL 0.9)))) = CRISIS"
  using critical_severity_crisis_decision
    [of "assessment_fields ''u1'' (default_SeverityClassification PanicSeverity.CRITICAL 0.9)"
        "context_for (assessment_fields ''u1'' (default_SeverityClassification PanicSeverity.CRITICAL 0.9))"]
  by (simp add: assessment_with_def assessment_fields_def default_SeverityClassification_def
        SeverityClassification_post_init_def context_for_def)

subsection \<open>Risk scoring and crisis detection\<close>

text \<open>
  C3. With the default thresholds, a risk score at or above the critical threshold 0.85 is
  classified \<open>CRITICAL\<close> only if there are at least three signals of at least two distinct
  signal types; otherwise the level is \<open>HIGH\<close>.
\<close>

theorem critical_needs_multi_signal:
  assumes "score \<ge> critical_threshold default_thresholds"
  shows "(classify_risk_level default_thresholds score sigs = RiskLevel.CRITICAL \<longleftrightarrow>
            length sigs \<ge> 3 \<and> card (signal_type ` set sigs) \<ge> 2) \<and>
         (\<not> (length sigs \<ge> 3 \<and> card (signal_type ` set sigs) \<ge> 2) \<longrightarrow>
            classify_risk_level default_thresholds score sigs = RiskLevel.HIGH)"
proof -
  have types: "length (remdups (map signal_type sigs)) = card (signal_type ` set sigs)"
    by (simp add: length_remdups_card_conv)
  show ?thesis
    using assms
    by (auto simp: classify_risk_level_def Let_def default_thresholds_def types)
qed

theorem critical_needs_multi_signal_witness:
  "(0.9::real) \<ge> critical_threshold default_thresholds \<and>
   classify_risk_level default_thresholds 0.9
     [signal_of_type RiskSignalType.BEHAVIORAL, signal_of_type RiskSignalType.BEHAVIORAL,
      signal_of_type RiskSignalType.BEHAVIORAL] = RiskLevel.HIGH \<and>
   classify_risk_level default_thresholds 0.9
     [signal_of_type RiskSignalType.BEHAVIORAL, signal_of_type RiskSignalType.EMOTIONAL,
      signal_of_type RiskSignalType.BEHAVIORAL] = RiskLevel.CRITICAL"
  using critical_needs_multi_signal
    [of "0.9" "[signal_of_type RiskSignalType.BEHAVIORAL, signal_of_type RiskSignalType.BEHAVIORAL,
                signal_of_type RiskSignalType.BEHAVIORAL]"]
    critical_needs_multi_signal
    [of "0.9" "[signal_of_type RiskSignalType.BEHAVIORAL, signal_of_type RiskSignalType.EMOTIONAL,
                signal_of_type RiskSignalType.BEHAVIORAL]"]
  by (simp add: default_thresholds_def signal_of_type_def classify_risk_level_def Let_def card_insert_if)

text \<open>
  C4. The multi-signal requirement of a crisis detection result holds exactly when its
  signals span at least two distinct categories, for any result and so for the result of
  \<open>detect\<close>; signals that all lie in one category never meet it.
\<close>

theorem multi_signal_requirement:
  "(meets_multi_signal_requirement (CrisisDetectionResult_post_init r) \<longleftrightarrow>
      card (CrisisSignal.category ` set (CrisisDetectionResult.signals r)) \<ge> 2) \<and>
   (meets_multi_signal_requirement (detect clinical) \<longleftrightarrow>
      card (CrisisSignal.category ` set (CrisisDetectionResult.signals (detect clinical))) \<ge> 2) \<and>
   ((\<forall>s \<in> set (CrisisDetectionResult.signals r). CrisisSignal.category s = cat) \<longrightarrow>
      \<not> meets_multi_signal_requirement (CrisisDetectionResult_post_init r))"
proof -
  have conv: "\<And>xs. length (remdups (map CrisisSignal.category xs)) = card (CrisisSignal.category ` set xs)"
    by (simp add: length_remdups_card_conv)
  have one: "card (CrisisSignal.category ` set (CrisisDetectionResult.signals r)) \<le> 1"
    if "\<forall>s \<in> set (CrisisDetectionResult.signals r). CrisisSignal.category s = cat"
  proof -
    from that have "CrisisSignal.category ` set (CrisisDetectionResult.signals r) \<subseteq> {cat}"
      by auto
    then have "card (CrisisSignal.category ` set (CrisisDetectionResult.signals r)) \<le> card {cat}"
      by (intro card_mono) auto
    then show ?thesis by simp
  qed
  show ?thesis
    using one
    by (auto simp: CrisisDetectionResult_post_init_def detect_def Let_def conv)
qed

theorem multi_signal_requirement_witness:
  "map CrisisSignal.signal_name (CrisisDetectionResult.signals (detect flagged_mild_assessment))
     = [''crisis_protocol_flag''] \<and>
   map CrisisSignal.category (CrisisDetectionResult.signals (detect flagged_mild_assessment))
     = [''behavioral''] \<and>
   \<not> meets_multi_signal_requirement (detect flagged_mild_assessment)"
proof -
  have sigs: "CrisisDetectionResult.signals (detect flagged_mild_assessment) =
      [\<lparr>signal_name = ''crisis_protocol_flag'', description = ''Clinical pipeline flagged crisis'',
        category = ''behavioral'', weight = 0.35, confidence = 1, pattern_matched = []\<rparr>]"
    by (simp add: detect_def flagged_mild_assessment_def ClinicalAssessment_post_init_def
          assessment_fields_def default_SeverityClassification_def SeverityClassification_post_init_def
          default_EmotionProfile_def EmotionProfile_post_init_def default_DistressIndicators_def
          default_TriggerAnalysis_def analyze_emotions_def analyze_behavioral_def analyze_distress_def
          get_emotion_score_def indicator_count_def all_indicators_def
          CrisisDetectionResult_post_init_def Let_def)
  have all: "\<forall>s \<in> set (CrisisDetectionResult.signals (detect flagged_mild_assessment)).
      CrisisSignal.category s = ''behavioral''"
    by (simp add: sigs)
  have post: "detect flagged_mild_assessment = CrisisDetectionResult_post_init (detect flagged_mild_assessment)"
    by (simp add: detect_def CrisisDetectionResult_post_init_def Let_def)
  from all multi_signal_requirement [of "detect flagged_mild_assessment" flagged_mild_assessment "''behavioral''"]
  show ?thesis
    by (simp add: sigs)
qed

subsection \<open>Risk assessment of a lone critical severity\<close>

lemma post_init_keeps:
  "ClinicalAssessment.severity (ClinicalAssessment_post_init a) = ClinicalAssessment.severity a"
  "emotion_profile (ClinicalAssessment_post_init a) = emotion_profile a"
  "distress_indicators (ClinicalAssessment_post_init a) = distress_indicators a"
  "confidence_score (ClinicalAssessment_post_init a) = confidence_score a"
  by (simp_all add: ClinicalAssessment_post_init_def Let_def)

lemma risk_post_init_keeps:
  "RiskAssessment.signals (RiskAssessment_post_init r) = RiskAssessment.signals r"
  "risk_level (RiskAssessment_post_init r) = risk_level r"
  "risk_score (RiskAssessment_post_init r) = risk_score r"
  "signal_count (RiskAssessment_post_init r) = length (RiskAssessment.signals r)"
  by (simp_all add: RiskAssessment_post_init_def Let_def)

lemma assess_signals:
  "RiskAssessment.signals (assess th c h) = collect_signals c h"
  "signal_count (assess th c h) = length (collect_signals c h)"
  by (simp_all add: assess_def Let_def risk_post_init_keeps)

lemma assess_level:
  "risk_level (assess th c h) =
     uncertainty_bump
       (snd (calculate_risk_score (collect_signals c h) c) < low_confidence_threshold th \<or>
        uncertainty_flag (ClinicalAssessment.severity c))
       (fst (calculate_risk_score (collect_signals c h) c))
       (classify_risk_level th (fst (calculate_risk_score (collect_signals c h) c)) (collect_signals c h))"
  by (simp add: assess_def Let_def risk_post_init_keeps)

lemma max_weight_value: "sum_list (map (\<lambda>(n, w). \<bar>w\<bar>) SIGNAL_WEIGHTS) = (47/20::real)"
  by (simp add: SIGNAL_WEIGHTS_def)

text \<open>
  C7, as stated, fails: the assessment with critical severity at confidence 0.9 and nothing
  else yields two risk signals, not one, because its construction sets the crisis-protocol
  flag, and its level is \<open>ELEVATED\<close>, not \<open>HIGH\<close>: the score 0.715 / 2.35 is below every
  threshold and only the uncertainty rule raises the level.
\<close>

theorem lone_critical_counterexample:
  "length (RiskAssessment.signals (assess default_thresholds critical_only_assessment [])) = 2 \<and>
   length (RiskAssessment.signals (assess default_thresholds critical_only_assessment [])) \<noteq> 1 \<and>
   risk_level (assess default_thresholds critical_only_assessment []) = RiskLevel.ELEVATED \<and>
   risk_level (assess default_thresholds critical_only_assessment []) \<noteq> RiskLevel.HIGH"
proof -
  define sigs where "sigs =
      [\<lparr>signal_type = RiskSignalType.BEHAVIORAL, RiskSignal.signal_name = ''severity_critical'',
        RiskSignal.description = ''Critical panic severity detected'',
        RiskSignal.weight = 0.35, RiskSignal.confidence = 0.9, source = ''panic_classifier''\<rparr>,
       \<lparr>signal_type = RiskSignalType.BEHAVIORAL, RiskSignal.signal_name = ''crisis_protocol_active'',
        RiskSignal.description = ''Clinical assessment flagged crisis protocol'',
        RiskSignal.weight = 0.40, RiskSignal.confidence = 1, source = ''clinical_assessment''\<rparr>]"
  have coll: "collect_signals critical_only_assessment [] = sigs"
    by (simp add: collect_signals_def critical_only_assessment_def assessment_with_def
          assessment_fields_def default_SeverityClassification_def SeverityClassification_post_init_def
          default_EmotionProfile_def EmotionProfile_post_init_def default_DistressIndicators_def
          ClinicalAssessment_post_init_def extract_severity_signals_def extract_emotion_signals_def
          extract_distress_signals_def SIGNAL_WEIGHTS_get_def SIGNAL_WEIGHTS_def
          List.map_filter_def Let_def sigs_def)
  have cs: "confidence_score critical_only_assessment = 0"
    by (simp add: critical_only_assessment_def assessment_with_def assessment_fields_def
          post_init_keeps)
  have score: "calculate_risk_score sigs critical_only_assessment = (143 / 470, 19 / 40)"
    by (simp add: calculate_risk_score_def sigs_def Let_def max_weight_value
          weighted_contribution_def cs)
  have level0: "classify_risk_level default_thresholds (143 / 470) sigs = LOW"
    by (simp add: classify_risk_level_def default_thresholds_def Let_def)
  have lvl: "risk_level (assess default_thresholds critical_only_assessment []) = RiskLevel.ELEVATED"
    by (simp add: assess_level coll score level0 uncertainty_bump_def max_level_def)
       (simp add: default_thresholds_def)
  show ?thesis
    by (simp add: lvl assess_signals coll) (simp add: sigs_def)
qed

text \<open>
  C7, amended. An assessment with critical severity at confidence 0.9 whose emotion
  profile and distress indicators contribute no signal, scored without history, yields
  exactly two risk signals, \<open>severity_critical\<close> and \<open>crisis_protocol_active\<close>, both
  behavioural, and its level is not \<open>CRITICAL\<close>.
\<close>

theorem critical_alone_two_behavioral_signals:
  assumes sev: "predicted_severity (ClinicalAssessment.severity a) = PanicSeverity.CRITICAL"
      and conf: "SeverityClassification.confidence (ClinicalAssessment.severity a) = 0.9"
      and emo: "extract_emotion_signals a = []"
      and dis: "extract_distress_signals a = []"
  shows "map RiskSignal.signal_name
           (RiskAssessment.signals (assess default_thresholds (ClinicalAssessment_post_init a) []))
           = [''severity_critical'', ''crisis_protocol_active''] \<and>
         map signal_type
           (RiskAssessment.signals (assess default_thresholds (ClinicalAssessment_post_init a) []))
           = [RiskSignalType.BEHAVIORAL, RiskSignalType.BEHAVIORAL] \<and>
         signal_count (assess default_thresholds (ClinicalAssessment_post_init a) []) = 2 \<and>
         risk_level (assess default_thresholds (ClinicalAssessment_post_init a) []) \<noteq> RiskLevel.CRITICAL"
proof -
  let ?c = "ClinicalAssessment_post_init a"
  define sigs where "sigs =
      [\<lparr>signal_type = RiskSignalType.BEHAVIORAL, RiskSignal.signal_name = ''severity_critical'',
        RiskSignal.description = ''Critical panic severity detected'',
        RiskSignal.weight = 0.35, RiskSignal.confidence = 0.9, source = ''panic_classifier''\<rparr>,
       \<lparr>signal_type = RiskSignalType.BEHAVIORAL, RiskSignal.signal_name = ''crisis_protocol_active'',
        RiskSignal.description = ''Clinical assessment flagged crisis protocol'',
        RiskSignal.weight = 0.40, RiskSignal.confidence = 1, source = ''clinical_assessment''\<rparr>]"
  have flag: "requires_crisis_protocol ?c"
    using sev by (simp add: ClinicalAssessment_post_init_def Let_def)
  have emo': "extract_emotion_signals ?c = []"
    using emo by (simp add: extract_emotion_signals_def post_init_keeps)
  have dis': "extract_distress_signals ?c = []"
    using dis by (simp add: extract_distress_signals_def post_init_keeps)
  have sevs: "extract_severity_signals ?c = [hd sigs]"
    using sev conf
    by (simp add: extract_severity_signals_def post_init_keeps Let_def SIGNAL_WEIGHTS_get_def
          SIGNAL_WEIGHTS_def sigs_def)
  have w: "SIGNAL_WEIGHTS_get ''crisis_protocol_active'' 0 = 0.40"
    by (simp add: SIGNAL_WEIGHTS_get_def SIGNAL_WEIGHTS_def)
  have coll: "collect_signals ?c [] = sigs"
    using flag by (simp add: collect_signals_def emo' dis' sevs w) (simp add: sigs_def)
  have score: "fst (calculate_risk_score sigs ?c) = 143 / 470"
    by (simp add: calculate_risk_score_def sigs_def Let_def max_weight_value weighted_contribution_def)
  have level0: "classify_risk_level default_thresholds (143 / 470) sigs = LOW"
    by (simp add: classify_risk_level_def default_thresholds_def Let_def)
  have lvl: "risk_level (assess default_thresholds ?c []) \<noteq> RiskLevel.CRITICAL"
    by (simp add: assess_level coll score level0 uncertainty_bump_def max_level_def)
  show ?thesis
    using lvl by (simp add: assess_signals coll) (simp add: sigs_def)
qed

theorem critical_alone_two_behavioral_signals_witness:
  "predicted_severity (ClinicalAssessment.severity
      (assessment_fields ''u1'' (default_SeverityClassification PanicSeverity.CRITICAL 0.9)))
     = PanicSeverity.CRITICAL \<and>
   SeverityClassification.confidence (ClinicalAssessment.severity
      (assessment_fields ''u1'' (default_SeverityClassification PanicSeverity.CRITICAL 0.9))) = 0.9 \<and>
   extract_emotion_signals
      (assessment_fields ''u1'' (default_SeverityClassification PanicSeverity.CRITICAL 0.9)) = [] \<and>
   extract_distress_signals
      (assessment_fields ''u1'' (default_SeverityClassification PanicSeverity.CRITICAL 0.9)) = [] \<and>
   signal_count (assess default_thresholds critical_only_assessment []) = 2 \<and>
   risk_level (assess default_thresholds critical_only_assessment []) \<noteq> RiskLevel.CRITICAL"
proof -
  let ?a = "assessment_fields ''u1'' (default_SeverityClassification PanicSeverity.CRITICAL 0.9)"
  have h1: "predicted_severity (ClinicalAssessment.severity ?a) = PanicSeverity.CRITICAL"
    by (simp add: assessment_fields_def default_SeverityClassification_def
          SeverityClassification_post_init_def)
  have h2: "SeverityClassification.confidence (ClinicalAssessment.severity ?a) = 0.9"
    by (simp add: assessment_fields_def default_SeverityClassification_def
          SeverityClassification_post_init_def)
  have h3: "extract_emotion_signals ?a = []"
    by (simp add: assessment_fields_def extract_emotion_signals_def default_EmotionProfile_def
          EmotionProfile_post_init_def List.map_filter_def)
  have h4: "extract_distress_signals ?a = []"
    by (simp add: assessment_fields_def extract_distress_signals_def default_DistressIndicators_def)
  from critical_alone_two_behavioral_signals [OF h1 h2 h3 h4] h1 h2 h3 h4
  show ?thesis
    by (simp add: critical_only_assessment_def assessment_with_def)
qed

subsection \<open>Escalation manager\<close>

text \<open>
  C8. \<open>EscalationManager.evaluate\<close> records an escalation event, appended to the audit log,
  exactly when the current level is strictly above the supplied previous level or the
  current level is \<open>HIGH\<close> or above. At level \<open>HIGH\<close> with country code US and the built-in
  resources, the decision carries resource text that contains the US crisis hotline,
  the 988 Suicide & Crisis Lifeline.
\<close>

theorem escalation_event_recorded:
  "(log_event (fst (escalation_evaluate m risk cc prev)) \<noteq> None \<longleftrightarrow>
      (case prev of None \<Rightarrow> False | Some p \<Rightarrow> risk_value (risk_level risk) > risk_value p) \<or>
      risk_value (risk_level risk) \<ge> risk_value RiskLevel.HIGH) \<and>
   event_log (snd (escalation_evaluate m risk cc prev)) =
      event_log m @ (case log_event (fst (escalation_evaluate m risk cc prev)) of
                       None \<Rightarrow> [] | Some e \<Rightarrow> [e]) \<and>
   (risk_level risk = RiskLevel.HIGH \<and> resolver m = BUILT_IN_RESOURCES \<longrightarrow>
      (\<exists>t. resources_to_include (fst (escalation_evaluate m risk ''US'' prev)) = Some t \<and>
           contains ''988 Suicide & Crisis Lifeline'' t))"
proof -
  have us: "contains ''988 Suicide & Crisis Lifeline'' (format_crisis_message BUILT_IN_RESOURCES ''US'' False)"
    by (simp add: format_crisis_message_def get_resources_def BUILT_IN_RESOURCES_def
          format_for_user_def Let_def)
  show ?thesis
    using us by (auto simp: escalation_evaluate_def Let_def split: option.splits)
qed

theorem escalation_event_recorded_witness:
  "risk_level (risk_assessment_with ''u1'' RiskLevel.HIGH 0.7) = RiskLevel.HIGH \<and>
   resolver new_manager = BUILT_IN_RESOURCES \<and>
   log_event (fst (escalation_evaluate new_manager (risk_assessment_with ''u1'' RiskLevel.HIGH 0.7) ''US'' None))
     \<noteq> None \<and>
   length (event_log (snd (escalation_evaluate new_manager
      (risk_assessment_with ''u1'' RiskLevel.HIGH 0.7) ''US'' None))) = 1 \<and>
   (\<exists>t. resources_to_include (fst (escalation_evaluate new_manager
            (risk_assessment_with ''u1'' RiskLevel.HIGH 0.7) ''US'' None)) = Some t \<and>
        contains ''988 Suicide & Crisis Lifeline'' t)"
proof -
  have lvl: "risk_level (risk_assessment_with ''u1'' RiskLevel.HIGH 0.7) = RiskLevel.HIGH"
    by (simp add: risk_assessment_with_def risk_post_init_keeps)
  have res: "resolver new_manager = BUILT_IN_RESOURCES"
    by (simp add: new_manager_def)
  have log: "event_log new_manager = []"
    by (simp add: new_manager_def)
  from escalation_event_recorded
         [of new_manager "risk_assessment_with ''u1'' RiskLevel.HIGH 0.7" "''US''" None]
       lvl res log
  show ?thesis
    by (auto split: option.splits)
qed

end
